theory Spec2Isabelle
  imports Main
begin

section \<open>Project service of the secret-management backend\<close>

text \<open>
  A shallow embedding of \<^verbatim>\<open>backend/src/services/project/project-service.ts\<close>:
  \<^verbatim>\<open>createProject\<close>, \<^verbatim>\<open>deleteProject\<close> and \<^verbatim>\<open>updateVersionLimit\<close>.
  The service is asynchronous TypeScript over a relational store. Here every
  \<^verbatim>\<open>await\<close> is a step of a state-and-error monad over an explicit store, every
  \<^verbatim>\<open>throw\<close> is an \<open>Inl\<close> result, and the collaborators the service is constructed
  with (permission service, license service, crypto helpers, slug helpers) are the
  fields of an environment record.
\<close>

subsection \<open>Enumerations\<close>

text \<open>
  \<^verbatim>\<open>ActorType\<close> is declared in \<^verbatim>\<open>../auth/auth-type\<close>. The service branches on
  \<^verbatim>\<open>USER\<close> and \<^verbatim>\<open>IDENTITY\<close> only; \<open>SERVICE\<close> stands for every other actor kind,
  which falls through both branches.
\<close>

datatype ActorType = USER | IDENTITY | SERVICE

datatype ProjectMembershipRole = Admin | Member | Custom | Viewer | NoAccess

datatype OrgMembershipRole = OrgAdmin | OrgMember | OrgNoAccess | OrgCustom

datatype ProjectVersion = V1 | V2

datatype OrgPermissionActions = OrgRead | OrgCreate | OrgEdit | OrgDelete

datatype OrgPermissionSubjects = Workspace | OrgRole | OrgMemberSubject | OrgSettings

datatype ProjectPermissionActions = ProjRead | ProjCreate | ProjEdit | ProjDelete

datatype ProjectPermissionSub = Project | Settings | Secrets

subsection \<open>Rows of the store\<close>

text \<open>
  Row identifiers are opaque strings minted by the database. The model mints them
  from a counter kept with the tables, so an identifier is a natural number.
  Organization identifiers are never minted by this service and stay strings, as they
  are spliced into the cache key.
\<close>

type_synonym uuid = nat

record user_row =
  u_id :: uuid
  u_isGhost :: bool
  u_orgId :: "string option"
  u_publicKey :: "string option"

record project_row =
  p_id :: uuid
  p_name :: string
  p_orgId :: string
  p_slug :: string
  p_version :: ProjectVersion
  p_pitVersionLimit :: int

record membership_row =
  pm_id :: uuid
  pm_userId :: uuid
  pm_projectId :: uuid

record membership_role_row =
  pr_id :: uuid
  pr_projectMembershipId :: uuid
  pr_role :: ProjectMembershipRole
  pr_customRoleId :: "uuid option"

record blind_index_row =
  bi_id :: uuid
  bi_projectId :: uuid
  bi_keyEncoding :: string
  bi_saltIV :: string
  bi_saltTag :: string
  bi_algorithm :: string
  bi_encryptedSaltCipherText :: string

record env_row =
  e_id :: uuid
  e_name :: string
  e_slug :: string
  e_projectId :: uuid
  e_position :: nat

record folder_row =
  f_id :: uuid
  f_name :: string
  f_envId :: uuid
  f_version :: nat

record key_row =
  k_id :: uuid
  k_projectId :: uuid
  k_receiverId :: uuid
  k_encryptedKey :: string
  k_nonce :: string
  k_senderId :: uuid

record bot_row =
  b_id :: uuid
  b_name :: string
  b_projectId :: uuid
  b_tag :: string
  b_iv :: string
  b_encryptedProjectKey :: string
  b_encryptedProjectKeyNonce :: string
  b_encryptedPrivateKey :: string
  b_isActive :: bool
  b_publicKey :: string
  b_senderId :: uuid
  b_algorithm :: string
  b_keyEncoding :: string

record identity_org_membership_row =
  iom_id :: uuid
  iom_identityId :: uuid
  iom_orgId :: string
  iom_role :: OrgMembershipRole
  iom_roleId :: "uuid option"

record identity_membership_row =
  im_id :: uuid
  im_identityId :: uuid
  im_projectId :: uuid

record tables =
  next_id :: nat
  users :: "user_row list"
  projects :: "project_row list"
  project_memberships :: "membership_row list"
  project_user_membership_roles :: "membership_role_row list"
  secret_blind_indexes :: "blind_index_row list"
  project_environments :: "env_row list"
  secret_folders :: "folder_row list"
  project_keys :: "key_row list"
  project_bots :: "bot_row list"
  identity_org_memberships :: "identity_org_membership_row list"
  identity_project_memberships :: "identity_membership_row list"
  identity_project_membership_roles :: "membership_role_row list"

subsection \<open>The store, transactions and the cache\<close>

text \<open>
  \<open>committed\<close> is what the database durably holds. \<open>pending\<close> is the working copy of
  the open transaction: a data-access call that is handed the transaction handle
  \<open>tx\<close> reads and writes \<open>pending\<close>, a call without it reads and writes \<open>committed\<close>.
  \<open>deleted_keys\<close> logs the keys that \<^verbatim>\<open>keyStore.deleteItem\<close> deleted, oldest first.
\<close>

record world =
  committed :: tables
  pending :: tables
  deleted_keys :: "string list"

datatype tx = Tx

text \<open>
  The call sites of the data-access layer and of the key store, used to name which
  call misbehaved. \<open>LatestKeyNotFound\<close> is not a call that raises: it stands for the
  lookup at \<open>FindLatestProjectKey\<close> resolving with no row.
\<close>

datatype dal_call =
    AddGhostUser | ProjectCreate | GhostMembershipCreate | GhostRoleCreate
  | BlindIndexCreate | EnvInsertMany | FolderInsertMany | GhostKeyCreate | BotCreate
  | FindLatestProjectKey | FindUserEncKey | UserMembershipCreate | UserRoleCreate
  | UserKeyCreate | FindIdentityOrgMembership | IdentityMembershipCreate
  | IdentityRoleCreate | FindProjectByFilter | ProjectDeleteById | UserDeleteById
  | FindProjectBySlug | ProjectUpdateById | FindProjectGhostUser
  | LatestKeyNotFound | KeyStoreDeleteItem

datatype error =
    ForbiddenError
  | BadRequestError string
  | ForbiddenRequestError string
  | Error string
  | TypeError
  | DatabaseError dal_call
  | KeyStoreError

type_synonym 'a io = "world \<Rightarrow> (error + 'a) \<times> world"

definition resolve :: "'a \<Rightarrow> 'a io" where
  "resolve a w = (Inr a, w)"

definition throw :: "error \<Rightarrow> 'a io" where
  "throw e w = (Inl e, w)"

text \<open>\<open>await m f\<close> is \<^verbatim>\<open>const a = await m; f(a)\<close>: a rejection of \<open>m\<close> skips \<open>f\<close>.\<close>

definition await :: "'a io \<Rightarrow> ('a \<Rightarrow> 'b io) \<Rightarrow> 'b io" where
  "await m f w = (case m w of (Inl e, w') \<Rightarrow> (Inl e, w') | (Inr a, w') \<Rightarrow> f a w')"

definition run_dal :: "tx option \<Rightarrow> (tables \<Rightarrow> 'a \<times> tables) \<Rightarrow> world \<Rightarrow> 'a \<times> world" where
  "run_dal h f w =
     (case h of
        Some Tx \<Rightarrow> (case f (pending w) of (a, t) \<Rightarrow> (a, w\<lparr>pending := t\<rparr>))
      | None \<Rightarrow> (case f (committed w) of (a, t) \<Rightarrow> (a, w\<lparr>committed := t\<rparr>)))"

text \<open>
  Modelled from the spec: \<^verbatim>\<open>projectDAL.transaction\<close> (the data-access layer is not
  part of the sources). "Single atomic unit ... any failure rolls back every prior
  step"; "readers see either the pre-state or the fully committed post-state". The
  callback runs on a working copy that starts as the committed tables; when it
  resolves the working copy is committed, when it rejects the working copy is dropped.
\<close>

definition transaction :: "(tx \<Rightarrow> 'a io) \<Rightarrow> 'a io" where
  "transaction body w =
     (case body Tx (w\<lparr>pending := committed w\<rparr>) of
        (Inl e, w') \<Rightarrow> (Inl e, w'\<lparr>pending := committed w'\<rparr>)
      | (Inr a, w') \<Rightarrow> (Inr a, w'\<lparr>committed := pending w'\<rparr>))"

subsection \<open>Collaborators\<close>

record organization =
  org_id :: string

record org_membership =
  om_id :: uuid

record custom_role =
  cr_id :: uuid

record plan =
  workspaceLimit :: "int option"
  workspacesUsed :: int

record blind_index =
  bx_keyEncoding :: string
  bx_iv :: string
  bx_tag :: string
  bx_algorithm :: string
  bx_ciphertext :: string

record sealed =
  s_iv :: string
  s_tag :: string
  s_ciphertext :: string
  s_encoding :: string
  s_algorithm :: string

text \<open>
  The dependencies the service factory is constructed with, and the library
  functions it imports, none of which is part of the sources. \<open>'p\<close> is the type of a
  permission object (a rule set of the permission library); \<open>org_can\<close> and
  \<open>project_can\<close> are what \<^verbatim>\<open>ForbiddenError.from(p).throwUnlessCan(action, subject)\<close>
  tests. \<open>fails c\<close> says that the call at site \<open>c\<close> raises (for
  \<open>LatestKeyNotFound\<close>: that the lookup comes back empty).
\<close>

record 'p env =
  fails :: "dal_call \<Rightarrow> bool"
  orgDAL_findOne :: "string option \<Rightarrow> organization option"
  getOrgPermission ::
    "ActorType \<Rightarrow> uuid \<Rightarrow> string \<Rightarrow> string option \<Rightarrow> string option
       \<Rightarrow> error + ('p \<times> org_membership)"
  org_can :: "'p \<Rightarrow> OrgPermissionActions \<Rightarrow> OrgPermissionSubjects \<Rightarrow> bool"
  getProjectPermission ::
    "ActorType \<Rightarrow> uuid \<Rightarrow> uuid \<Rightarrow> string option \<Rightarrow> string option
       \<Rightarrow> error + ('p \<times> (ProjectMembershipRole \<Rightarrow> bool))"
  project_can :: "'p \<Rightarrow> ProjectPermissionActions \<Rightarrow> ProjectPermissionSub \<Rightarrow> bool"
  getOrgPermissionByRole :: "OrgMembershipRole \<Rightarrow> string \<Rightarrow> error + ('p \<times> custom_role option)"
  isAtLeastAsPrivileged :: "'p \<Rightarrow> 'p \<Rightarrow> bool"
  getPlan :: "string \<Rightarrow> plan"
  ROOT_ENCRYPTION_KEY :: "string option"
  ENCRYPTION_KEY :: "string option"
  createSecretBlindIndex :: "string option \<Rightarrow> string option \<Rightarrow> blind_index"
  slugify :: "string \<Rightarrow> string"
  alphaNumericNanoId :: "nat \<Rightarrow> string"
  generateKeyPair :: "uuid \<Rightarrow> string \<times> string"
  createProjectKey :: "string \<Rightarrow> string \<Rightarrow> string \<times> string"
  infisicalSymmetricEncypt :: "string \<Rightarrow> sealed"
  decryptAsymmetric :: "string \<Rightarrow> string \<Rightarrow> string \<Rightarrow> string \<Rightarrow> string"
  encryptAsymmetric :: "string \<Rightarrow> string \<Rightarrow> string \<Rightarrow> string \<times> string"
  ROOT_FOLDER_NAME :: string

subsection \<open>Data-access layer\<close>

text \<open>
  A data-access call at site \<open>c\<close>, with or without the transaction handle: it raises
  when the environment says so and otherwise runs \<open>f\<close> on the tables the handle selects.
\<close>

definition dal :: "'p env \<Rightarrow> dal_call \<Rightarrow> tx option \<Rightarrow> (tables \<Rightarrow> 'a \<times> tables) \<Rightarrow> 'a io" where
  "dal E c h f w =
     (if fails E c then (Inl (DatabaseError c), w)
      else (case run_dal h f w of (a, w') \<Rightarrow> (Inr a, w')))"

text \<open>
  \<^verbatim>\<open>keyStore.deleteItem(key)\<close>: the key store is a service of its own, outside every
  database transaction; the call raises when the store is unreachable and otherwise
  deletes the key.
\<close>

definition keyStore_deleteItem :: "'p env \<Rightarrow> string \<Rightarrow> unit io" where
  "keyStore_deleteItem E key w =
     (if fails E KeyStoreDeleteItem then (Inl KeyStoreError, w)
      else (Inr (), w\<lparr>deleted_keys := deleted_keys w @ [key]\<rparr>))"

text \<open>
  An insert is handed the row without its identifier (here: a function of the
  identifier), mints the identifier and returns the stored row.
\<close>

definition insert_user :: "(uuid \<Rightarrow> user_row) \<Rightarrow> tables \<Rightarrow> user_row \<times> tables" where
  "insert_user mk t =
     (let r = mk (next_id t) in (r, t\<lparr>next_id := Suc (next_id t), users := users t @ [r]\<rparr>))"

definition insert_project :: "(uuid \<Rightarrow> project_row) \<Rightarrow> tables \<Rightarrow> project_row \<times> tables" where
  "insert_project mk t =
     (let r = mk (next_id t) in (r, t\<lparr>next_id := Suc (next_id t), projects := projects t @ [r]\<rparr>))"

definition insert_membership :: "(uuid \<Rightarrow> membership_row) \<Rightarrow> tables \<Rightarrow> membership_row \<times> tables" where
  "insert_membership mk t =
     (let r = mk (next_id t)
      in (r, t\<lparr>next_id := Suc (next_id t), project_memberships := project_memberships t @ [r]\<rparr>))"

definition insert_user_role ::
  "(uuid \<Rightarrow> membership_role_row) \<Rightarrow> tables \<Rightarrow> membership_role_row \<times> tables" where
  "insert_user_role mk t =
     (let r = mk (next_id t)
      in (r, t\<lparr>next_id := Suc (next_id t),
               project_user_membership_roles := project_user_membership_roles t @ [r]\<rparr>))"

definition insert_blind_index ::
  "(uuid \<Rightarrow> blind_index_row) \<Rightarrow> tables \<Rightarrow> blind_index_row \<times> tables" where
  "insert_blind_index mk t =
     (let r = mk (next_id t)
      in (r, t\<lparr>next_id := Suc (next_id t), secret_blind_indexes := secret_blind_indexes t @ [r]\<rparr>))"

text \<open>\<^verbatim>\<open>insertMany\<close> stores the rows in order, with consecutive identifiers.\<close>

definition mint_many :: "nat \<Rightarrow> (uuid \<Rightarrow> 'r) list \<Rightarrow> 'r list" where
  "mint_many n mks = map (\<lambda>(i, mk). mk (n + i)) (enumerate 0 mks)"

definition insertMany_envs :: "(uuid \<Rightarrow> env_row) list \<Rightarrow> tables \<Rightarrow> env_row list \<times> tables" where
  "insertMany_envs mks t =
     (let rs = mint_many (next_id t) mks
      in (rs, t\<lparr>next_id := next_id t + length mks,
                project_environments := project_environments t @ rs\<rparr>))"

definition insertMany_folders ::
  "(uuid \<Rightarrow> folder_row) list \<Rightarrow> tables \<Rightarrow> folder_row list \<times> tables" where
  "insertMany_folders mks t =
     (let rs = mint_many (next_id t) mks
      in (rs, t\<lparr>next_id := next_id t + length mks, secret_folders := secret_folders t @ rs\<rparr>))"

definition insert_key :: "(uuid \<Rightarrow> key_row) \<Rightarrow> tables \<Rightarrow> key_row \<times> tables" where
  "insert_key mk t =
     (let r = mk (next_id t)
      in (r, t\<lparr>next_id := Suc (next_id t), project_keys := project_keys t @ [r]\<rparr>))"

definition insert_bot :: "(uuid \<Rightarrow> bot_row) \<Rightarrow> tables \<Rightarrow> bot_row \<times> tables" where
  "insert_bot mk t =
     (let r = mk (next_id t)
      in (r, t\<lparr>next_id := Suc (next_id t), project_bots := project_bots t @ [r]\<rparr>))"

definition insert_identity_membership ::
  "(uuid \<Rightarrow> identity_membership_row) \<Rightarrow> tables \<Rightarrow> identity_membership_row \<times> tables" where
  "insert_identity_membership mk t =
     (let r = mk (next_id t)
      in (r, t\<lparr>next_id := Suc (next_id t),
               identity_project_memberships := identity_project_memberships t @ [r]\<rparr>))"

definition insert_identity_role ::
  "(uuid \<Rightarrow> membership_role_row) \<Rightarrow> tables \<Rightarrow> membership_role_row \<times> tables" where
  "insert_identity_role mk t =
     (let r = mk (next_id t)
      in (r, t\<lparr>next_id := Suc (next_id t),
               identity_project_membership_roles := identity_project_membership_roles t @ [r]\<rparr>))"

text \<open>A query leaves the tables as they are.\<close>

definition query :: "(tables \<Rightarrow> 'a) \<Rightarrow> tables \<Rightarrow> 'a \<times> tables" where
  "query q t = (q t, t)"

record ghost_user =
  g_user :: user_row
  g_publicKey :: string
  g_plainPrivateKey :: string

text \<open>
  Modelled from the spec: \<^verbatim>\<open>orgService.addGhostUser\<close> (the organization service is not
  part of the sources). "createCustodian(org) -> (account, keypair): creates a new
  synthetic account inside the organization's identity space and generates its
  asymmetric keypair. Returns the plaintext private key transiently".
\<close>

definition addGhostUser :: "'p env \<Rightarrow> string \<Rightarrow> tx option \<Rightarrow> ghost_user io" where
  "addGhostUser E orgId h =
     dal E AddGhostUser h (\<lambda>t.
       (case generateKeyPair E (next_id t) of (pk, sk) \<Rightarrow>
          (case insert_user (\<lambda>i. \<lparr>u_id = i, u_isGhost = True, u_orgId = Some orgId,
                                  u_publicKey = Some pk\<rparr>) t of
             (r, t') \<Rightarrow> (\<lparr>g_user = r, g_publicKey = pk, g_plainPrivateKey = sk\<rparr>, t'))))"

record latest_key =
  lk_key :: key_row
  lk_senderPublicKey :: string

text \<open>
  \<^verbatim>\<open>projectKeyDAL.findLatestProjectKey(userId, projectId, tx)\<close>: the most recent grant
  of the project to the receiver, joined with its sender's public key.
\<close>

definition findLatestProjectKey_q :: "uuid \<Rightarrow> uuid \<Rightarrow> tables \<Rightarrow> latest_key option" where
  "findLatestProjectKey_q userId projectId t =
     (case rev (filter (\<lambda>k. k_projectId k = projectId \<and> k_receiverId k = userId) (project_keys t)) of
        [] \<Rightarrow> None
      | k # _ \<Rightarrow>
          (case List.find (\<lambda>u. u_id u = k_senderId k \<and> u_publicKey u \<noteq> None) (users t) of
             None \<Rightarrow> None
           | Some u \<Rightarrow>
               (case u_publicKey u of
                  None \<Rightarrow> None
                | Some pk \<Rightarrow> Some \<lparr>lk_key = k, lk_senderPublicKey = pk\<rparr>)))"

text \<open>
  The lookup as the service calls it. The data-access layer is not part of the
  sources: whether the lookup sees the grant written a moment before is up to it, and
  \<open>fails E LatestKeyNotFound\<close> says that it resolves with no row, which is what the
  service guards against at line 219.
\<close>

definition findLatestProjectKey ::
  "'p env \<Rightarrow> uuid \<Rightarrow> uuid \<Rightarrow> tx option \<Rightarrow> latest_key option io" where
  "findLatestProjectKey E userId projectId h =
     dal E FindLatestProjectKey h
       (query (\<lambda>t. if fails E LatestKeyNotFound then None
                    else findLatestProjectKey_q userId projectId t))"

record user_enc_key =
  uk_id :: uuid
  uk_publicKey :: string

text \<open>\<^verbatim>\<open>userDAL.findUserEncKeyByUserId(userId)\<close>: the user with its registered public key.\<close>

definition findUserEncKeyByUserId_q :: "uuid \<Rightarrow> tables \<Rightarrow> user_enc_key option" where
  "findUserEncKeyByUserId_q userId t =
     (case List.find (\<lambda>u. u_id u = userId \<and> u_publicKey u \<noteq> None) (users t) of
        None \<Rightarrow> None
      | Some u \<Rightarrow>
          (case u_publicKey u of
             None \<Rightarrow> None
           | Some pk \<Rightarrow> Some \<lparr>uk_id = u_id u, uk_publicKey = pk\<rparr>))"

definition findIdentityOrgMembership_q ::
  "uuid \<Rightarrow> string \<Rightarrow> tables \<Rightarrow> identity_org_membership_row option" where
  "findIdentityOrgMembership_q identityId orgId t =
     List.find (\<lambda>m. iom_identityId m = identityId \<and> iom_orgId m = orgId) (identity_org_memberships t)"

subsection \<open>Helpers of \<^verbatim>\<open>project-fns\<close>\<close>

record member_input =
  mi_orgMembershipId :: uuid
  mi_projectMembershipRole :: ProjectMembershipRole
  mi_userPublicKey :: string

record member_key =
  mk_orgMembershipId :: uuid
  mk_projectRole :: ProjectMembershipRole
  mk_workspaceEncryptedKey :: string
  mk_workspaceEncryptedNonce :: string

text \<open>
  Modelled from the spec: \<^verbatim>\<open>assignWorkspaceKeysToMembers\<close> of \<^verbatim>\<open>./project-fns\<close>
  (not part of the sources; its argument type \<^verbatim>\<open>AddUserToWsDTO\<close> is).
  "wrapForRecipient(rootKey, senderPrivateKey, recipientPublicKey) -> (wrappedKey,
  nonce): envelope-encrypts the root key for a new recipient; requires unwrapping it
  first via the sender's private key", and the member's role is the one asked for:
  "create the actor's MembershipRecord with Admin role".
\<close>

definition assignWorkspaceKeysToMembers ::
  "'p env \<Rightarrow> latest_key \<Rightarrow> string \<Rightarrow> member_input list \<Rightarrow> member_key list" where
  "assignWorkspaceKeysToMembers E decryptKey userPrivateKey members =
     (let plaintextProjectKey =
            decryptAsymmetric E (k_encryptedKey (lk_key decryptKey)) (k_nonce (lk_key decryptKey))
              (lk_senderPublicKey decryptKey) userPrivateKey
      in map (\<lambda>m.
           (case encryptAsymmetric E plaintextProjectKey (mi_userPublicKey m) userPrivateKey of
              (ciphertext, nonce) \<Rightarrow>
                \<lparr>mk_orgMembershipId = mi_orgMembershipId m,
                 mk_projectRole = mi_projectMembershipRole m,
                 mk_workspaceEncryptedKey = ciphertext,
                 mk_workspaceEncryptedNonce = nonce\<rparr>)) members)"

subsection \<open>\<^verbatim>\<open>createProject\<close>\<close>

record actor_dto =
  actor :: ActorType
  actorAuthMethod :: "string option"
  actorId :: uuid
  actorOrgId :: "string option"

record TCreateProjectDTO = actor_dto +
  workspaceName :: string
  slug :: "string option"

record project_result =
  r_project :: project_row
  r_environments :: "env_row list"
  r__id :: uuid

definition DEFAULT_PROJECT_ENVS :: "(string \<times> string) list" where
  "DEFAULT_PROJECT_ENVS =
     [(''Development'', ''dev''), (''Staging'', ''staging''), (''Production'', ''prod'')]"

text \<open>
  \<^verbatim>\<open>a || b\<close> on an optional string: \<^verbatim>\<open>undefined\<close> and the empty string are falsy.
\<close>

definition or_else :: "string option \<Rightarrow> string \<Rightarrow> string" where
  "or_else a b = (case a of None \<Rightarrow> b | Some x \<Rightarrow> if x = [] then b else x)"

text \<open>A template literal renders a missing value as \<^verbatim>\<open>undefined\<close>.\<close>

definition template :: "string option \<Rightarrow> string" where
  "template a = (case a of None \<Rightarrow> ''undefined'' | Some x \<Rightarrow> x)"

text \<open>The decimal rendering of an identifier inside a message.\<close>

fun digits :: "nat \<Rightarrow> string" where
  "digits n =
     (if n < 10 then [char_of (48 + n)] else digits (n div 10) @ [char_of (48 + n mod 10)])"

declare digits.simps [simp del]

text \<open>
  Lines 224--268: the project is created by a user, who becomes an admin of it.
\<close>

definition createProject_user ::
  "'p env \<Rightarrow> TCreateProjectDTO \<Rightarrow> org_membership \<Rightarrow> ghost_user \<Rightarrow> project_row
     \<Rightarrow> latest_key \<Rightarrow> tx \<Rightarrow> unit io" where
  "createProject_user E dto orgMembership ghostUser project latestKey tx =
     await (dal E FindUserEncKey None (query (findUserEncKeyByUserId_q (actorId dto)))) (\<lambda>user.
     case user of
       None \<Rightarrow> throw (Error ''User not found'')
     | Some user \<Rightarrow>
        (case assignWorkspaceKeysToMembers E latestKey (g_plainPrivateKey ghostUser)
                [\<lparr>mi_orgMembershipId = om_id orgMembership,
                  mi_projectMembershipRole = Admin,
                  mi_userPublicKey = uk_publicKey user\<rparr>] of
           [] \<Rightarrow> throw TypeError
         | projectAdmin # _ \<Rightarrow>
             await (dal E UserMembershipCreate (Some tx)
                      (insert_membership (\<lambda>i.
                         \<lparr>pm_id = i, pm_userId = uk_id user, pm_projectId = p_id project\<rparr>)))
               (\<lambda>userProjectMembership.
             await (dal E UserRoleCreate (Some tx)
                      (insert_user_role (\<lambda>i.
                         \<lparr>pr_id = i, pr_projectMembershipId = pm_id userProjectMembership,
                          pr_role = mk_projectRole projectAdmin, pr_customRoleId = None\<rparr>)))
               (\<lambda>_.
             await (dal E UserKeyCreate (Some tx)
                      (insert_key (\<lambda>i.
                         \<lparr>k_id = i, k_projectId = p_id project, k_receiverId = uk_id user,
                          k_encryptedKey = mk_workspaceEncryptedKey projectAdmin,
                          k_nonce = mk_workspaceEncryptedNonce projectAdmin,
                          k_senderId = u_id (g_user ghostUser)\<rparr>)))
               (\<lambda>_. resolve ())))))"

text \<open>
  Lines 271--318: the project is created by an identity, which becomes a member of it.
\<close>

definition createProject_identity ::
  "'p env \<Rightarrow> TCreateProjectDTO \<Rightarrow> organization \<Rightarrow> 'p \<Rightarrow> project_row \<Rightarrow> tx \<Rightarrow> unit io" where
  "createProject_identity E dto organization permission project tx =
     await (dal E FindIdentityOrgMembership (Some tx)
              (query (findIdentityOrgMembership_q (actorId dto) (p_orgId project))))
       (\<lambda>identityOrgMembership.
     case identityOrgMembership of
       None \<Rightarrow>
         throw (BadRequestError (''Failed to find identity with id '' @ digits (actorId dto)))
     | Some _ \<Rightarrow>
        (case getOrgPermissionByRole E OrgMember (org_id organization) of
           Inl e \<Rightarrow> throw e
         | Inr (rolePermission, customRole) \<Rightarrow>
             if \<not> isAtLeastAsPrivileged E permission rolePermission
             then throw (ForbiddenRequestError
                           ''Failed to add identity to project with more privileged role'')
             else
               await (dal E IdentityMembershipCreate (Some tx)
                        (insert_identity_membership (\<lambda>i.
                           \<lparr>im_id = i, im_identityId = actorId dto, im_projectId = p_id project\<rparr>)))
                 (\<lambda>identityProjectMembership.
               await (dal E IdentityRoleCreate (Some tx)
                        (insert_identity_role (\<lambda>i.
                           \<lparr>pr_id = i, pr_projectMembershipId = im_id identityProjectMembership,
                            pr_role = (if customRole \<noteq> None then Custom else Admin),
                            pr_customRoleId = map_option cr_id customRole\<rparr>)))
                 (\<lambda>_. resolve ()))))"

text \<open>Lines 129--325: the callback handed to \<^verbatim>\<open>projectDAL.transaction\<close>.\<close>

definition createProject_tx ::
  "'p env \<Rightarrow> TCreateProjectDTO \<Rightarrow> organization \<Rightarrow> 'p \<Rightarrow> org_membership \<Rightarrow> blind_index
     \<Rightarrow> tx \<Rightarrow> project_result io" where
  "createProject_tx E dto organization permission orgMembership blindIndex tx =
     await (addGhostUser E (org_id organization) (Some tx)) (\<lambda>ghostUser.
     await (dal E ProjectCreate (Some tx)
              (insert_project (\<lambda>i.
                 \<lparr>p_id = i, p_name = workspaceName dto, p_orgId = org_id organization,
                  p_slug = or_else (slug dto)
                             (slugify E (workspaceName dto @ ''-'' @ alphaNumericNanoId E 4)),
                  p_version = V2, p_pitVersionLimit = 10\<rparr>)))
       (\<lambda>project.
     await (dal E GhostMembershipCreate (Some tx)
              (insert_membership (\<lambda>i.
                 \<lparr>pm_id = i, pm_userId = u_id (g_user ghostUser), pm_projectId = p_id project\<rparr>)))
       (\<lambda>projectMembership.
     await (dal E GhostRoleCreate (Some tx)
              (insert_user_role (\<lambda>i.
                 \<lparr>pr_id = i, pr_projectMembershipId = pm_id projectMembership,
                  pr_role = Admin, pr_customRoleId = None\<rparr>)))
       (\<lambda>_.
     await (dal E BlindIndexCreate (Some tx)
              (insert_blind_index (\<lambda>i.
                 \<lparr>bi_id = i, bi_projectId = p_id project,
                  bi_keyEncoding = bx_keyEncoding blindIndex,
                  bi_saltIV = bx_iv blindIndex,
                  bi_saltTag = bx_tag blindIndex,
                  bi_algorithm = bx_algorithm blindIndex,
                  bi_encryptedSaltCipherText = bx_ciphertext blindIndex\<rparr>)))
       (\<lambda>_.
     await (dal E EnvInsertMany (Some tx)
              (insertMany_envs
                 (map (\<lambda>(i, (name, slug)) ident.
                         \<lparr>e_id = ident, e_name = name, e_slug = slug,
                          e_projectId = p_id project, e_position = i + 1\<rparr>)
                    (enumerate 0 DEFAULT_PROJECT_ENVS))))
       (\<lambda>envs.
     await (dal E FolderInsertMany (Some tx)
              (insertMany_folders
                 (map (\<lambda>env ident.
                         \<lparr>f_id = ident, f_name = ROOT_FOLDER_NAME E, f_envId = e_id env,
                          f_version = 1\<rparr>) envs)))
       (\<lambda>_.
     case createProjectKey E (g_publicKey ghostUser) (g_plainPrivateKey ghostUser) of
       (encryptedProjectKey, encryptedProjectKeyIv) \<Rightarrow>
     await (dal E GhostKeyCreate (Some tx)
              (insert_key (\<lambda>i.
                 \<lparr>k_id = i, k_projectId = p_id project,
                  k_receiverId = u_id (g_user ghostUser),
                  k_encryptedKey = encryptedProjectKey,
                  k_nonce = encryptedProjectKeyIv,
                  k_senderId = u_id (g_user ghostUser)\<rparr>)))
       (\<lambda>_.
     let enc = infisicalSymmetricEncypt E (g_plainPrivateKey ghostUser) in
     await (dal E BotCreate (Some tx)
              (insert_bot (\<lambda>i.
                 \<lparr>b_id = i, b_name = ''Infisical Bot (Ghost)'', b_projectId = p_id project,
                  b_tag = s_tag enc, b_iv = s_iv enc,
                  b_encryptedProjectKey = encryptedProjectKey,
                  b_encryptedProjectKeyNonce = encryptedProjectKeyIv,
                  b_encryptedPrivateKey = s_ciphertext enc,
                  b_isActive = True,
                  b_publicKey = g_publicKey ghostUser,
                  b_senderId = u_id (g_user ghostUser),
                  b_algorithm = s_algorithm enc,
                  b_keyEncoding = s_encoding enc\<rparr>)))
       (\<lambda>_.
     await (findLatestProjectKey E (u_id (g_user ghostUser)) (p_id project) (Some tx))
       (\<lambda>latestKey.
     case latestKey of
       None \<Rightarrow> throw (Error ''Latest key not found for user'')
     | Some latestKey \<Rightarrow>
     await (if actor dto = USER
            then createProject_user E dto orgMembership ghostUser project latestKey tx
            else if actor dto = IDENTITY
            then createProject_identity E dto organization permission project tx
            else resolve ())
       (\<lambda>_.
     resolve \<lparr>r_project = project, r_environments = envs, r__id = p_id project\<rparr>)))))))))))"

text \<open>Lines 98--329.\<close>

definition createProject :: "'p env \<Rightarrow> TCreateProjectDTO \<Rightarrow> project_result io" where
  "createProject E dto =
     (case orgDAL_findOne E (actorOrgId dto) of
        None \<Rightarrow> throw TypeError
      | Some organization \<Rightarrow>
         (case getOrgPermission E (actor dto) (actorId dto) (org_id organization)
                 (actorAuthMethod dto) (actorOrgId dto) of
            Inl e \<Rightarrow> throw e
          | Inr (permission, orgMembership) \<Rightarrow>
              if \<not> org_can E permission OrgCreate Workspace then throw ForbiddenError
              else
                let blindIndex = createSecretBlindIndex E (ROOT_ENCRYPTION_KEY E) (ENCRYPTION_KEY E);
                    plan = getPlan E (org_id organization)
                in if (case workspaceLimit plan of
                         None \<Rightarrow> False
                       | Some limit \<Rightarrow> workspacesUsed plan \<ge> limit)
                   then throw (BadRequestError
                     ''Failed to create workspace due to plan limit reached. Upgrade plan to add more workspaces.'')
                   else
                     await (transaction
                              (createProject_tx E dto organization permission orgMembership blindIndex))
                       (\<lambda>results.
                     await (keyStore_deleteItem E (''infisical-cloud-plan-'' @ template (actorOrgId dto)))
                       (\<lambda>_.
                     resolve results))))"

subsection \<open>\<^verbatim>\<open>deleteProject\<close>\<close>

datatype Filter = ID uuid | SLUG string "string option"

record TDeleteProjectDTO = actor_dto +
  filter_by :: Filter

definition findProjectBySlug_q :: "string \<Rightarrow> string option \<Rightarrow> tables \<Rightarrow> project_row option" where
  "findProjectBySlug_q s orgId t =
     (case orgId of
        None \<Rightarrow> None
      | Some orgId \<Rightarrow> List.find (\<lambda>p. p_slug p = s \<and> p_orgId p = orgId) (projects t))"

definition findProjectByFilter_q :: "Filter \<Rightarrow> tables \<Rightarrow> project_row option" where
  "findProjectByFilter_q f t =
     (case f of
        ID projectId \<Rightarrow> List.find (\<lambda>p. p_id p = projectId) (projects t)
      | SLUG s orgId \<Rightarrow> findProjectBySlug_q s orgId t)"

definition deleteById_project :: "uuid \<Rightarrow> tables \<Rightarrow> project_row option \<times> tables" where
  "deleteById_project projectId t =
     (List.find (\<lambda>p. p_id p = projectId) (projects t),
      t\<lparr>projects := filter (\<lambda>p. p_id p \<noteq> projectId) (projects t)\<rparr>)"

definition deleteById_user :: "uuid \<Rightarrow> tables \<Rightarrow> user_row option \<times> tables" where
  "deleteById_user userId t =
     (List.find (\<lambda>u. u_id u = userId) (users t),
      t\<lparr>users := filter (\<lambda>u. u_id u \<noteq> userId) (users t)\<rparr>)"

text \<open>
  \<^verbatim>\<open>projectMembershipDAL.findProjectGhostUser(projectId, tx)\<close>: the ghost user among the
  members of the project.
\<close>

definition findProjectGhostUser_q :: "uuid \<Rightarrow> tables \<Rightarrow> user_row option" where
  "findProjectGhostUser_q projectId t =
     List.find (\<lambda>u. u_isGhost u \<and>
                  (\<exists>m \<in> set (project_memberships t). pm_projectId m = projectId \<and> pm_userId m = u_id u))
       (users t)"

text \<open>\<^verbatim>\<open>m.catch(() => null)\<close>: a rejection becomes \<^verbatim>\<open>null\<close>.\<close>

definition catch_null :: "'a option io \<Rightarrow> 'a option io" where
  "catch_null m w = (case m w of (Inl e, w') \<Rightarrow> (Inr None, w') | (Inr a, w') \<Rightarrow> (Inr a, w'))"

text \<open>Lines 343--353: the callback handed to \<^verbatim>\<open>projectDAL.transaction\<close>.\<close>

definition deleteProject_tx :: "'p env \<Rightarrow> project_row \<Rightarrow> tx \<Rightarrow> project_row option io" where
  "deleteProject_tx E project tx =
     await (dal E ProjectDeleteById (Some tx) (deleteById_project (p_id project))) (\<lambda>delProject.
     await (catch_null (dal E FindProjectGhostUser (Some tx)
                          (query (findProjectGhostUser_q (p_id project)))))
       (\<lambda>projectGhostUser.
     await (case projectGhostUser of
              None \<Rightarrow> resolve ()
            | Some g \<Rightarrow>
                await (dal E UserDeleteById (Some tx) (deleteById_user (u_id g))) (\<lambda>_. resolve ()))
       (\<lambda>_.
     resolve delProject)))"

text \<open>
  Lines 331--357. \<^verbatim>\<open>projectDAL.findProjectByFilter\<close> raises when no project matches.
\<close>

definition deleteProject :: "'p env \<Rightarrow> TDeleteProjectDTO \<Rightarrow> project_row option io" where
  "deleteProject E dto =
     await (dal E FindProjectByFilter None (query (findProjectByFilter_q (filter_by dto)))) (\<lambda>project.
     case project of
       None \<Rightarrow> throw (BadRequestError ''Project not found'')
     | Some project \<Rightarrow>
        (case getProjectPermission E (actor dto) (actorId dto) (p_id project)
                (actorAuthMethod dto) (actorOrgId dto) of
           Inl e \<Rightarrow> throw e
         | Inr (permission, hasRole) \<Rightarrow>
             if \<not> project_can E permission ProjDelete Project then throw ForbiddenError
             else
               await (transaction (deleteProject_tx E project)) (\<lambda>deletedProject.
               await (keyStore_deleteItem E (''infisical-cloud-plan-'' @ template (actorOrgId dto)))
                 (\<lambda>_.
               resolve deletedProject))))"

subsection \<open>\<^verbatim>\<open>updateVersionLimit\<close>\<close>

record TUpdateProjectVersionLimitDTO = actor_dto +
  pitVersionLimit :: int
  workspaceSlug :: string

definition updateById_project ::
  "uuid \<Rightarrow> (project_row \<Rightarrow> project_row) \<Rightarrow> tables \<Rightarrow> project_row option \<times> tables" where
  "updateById_project projectId upd t =
     (map_option upd (List.find (\<lambda>p. p_id p = projectId) (projects t)),
      t\<lparr>projects := map (\<lambda>p. if p_id p = projectId then upd p else p) (projects t)\<rparr>)"

text \<open>Lines 411--438.\<close>

definition updateVersionLimit ::
  "'p env \<Rightarrow> TUpdateProjectVersionLimitDTO \<Rightarrow> project_row option io" where
  "updateVersionLimit E dto =
     await (dal E FindProjectBySlug None
              (query (findProjectBySlug_q (workspaceSlug dto) (actorOrgId dto))))
       (\<lambda>project.
     case project of
       None \<Rightarrow> throw (BadRequestError ''Project not found'')
     | Some project \<Rightarrow>
        (case getProjectPermission E (actor dto) (actorId dto) (p_id project)
                (actorAuthMethod dto) (actorOrgId dto) of
           Inl e \<Rightarrow> throw e
         | Inr (permission, hasRole) \<Rightarrow>
             if \<not> hasRole Admin
             then throw (BadRequestError ''Only admins are allowed to take this action'')
             else dal E ProjectUpdateById None
                    (updateById_project (p_id project)
                       (\<lambda>p. p\<lparr>p_pitVersionLimit := pitVersionLimit dto\<rparr>))))"

subsection \<open>A concrete deployment\<close>

text \<open>
  A permission object is the list of (action, subject) pairs it allows; one
  permission is at least as privileged as another when it allows every pair the
  other allows. Crypto and slug helpers are stand-ins that keep their inputs visible.
\<close>

type_synonym rules = "(nat \<times> nat) list"

definition demo_env :: "rules env" where
  "demo_env =
     \<lparr>fails = (\<lambda>_. False),
      orgDAL_findOne = (\<lambda>orgId. map_option (\<lambda>i. \<lparr>org_id = i\<rparr>) orgId),
      getOrgPermission = (\<lambda>a i orgId m aOrg. Inr ([(1, 0), (1, 1), (2, 0)], \<lparr>om_id = 0\<rparr>)),
      org_can = (\<lambda>p a s. a = OrgCreate \<and> s = Workspace \<and> (1, 0) \<in> set p),
      getProjectPermission = (\<lambda>a i pid m aOrg. Inr ([], (\<lambda>r. r = Admin))),
      project_can = (\<lambda>p a s. a = ProjDelete \<and> s = Project \<and> (3, 0) \<in> set p),
      getOrgPermissionByRole = (\<lambda>r orgId.
        Inr ([(1, 0)], if r = OrgCustom then Some \<lparr>cr_id = 6\<rparr> else None)),
      isAtLeastAsPrivileged = (\<lambda>p q. set q \<subseteq> set p),
      getPlan = (\<lambda>orgId. \<lparr>workspaceLimit = Some 3, workspacesUsed = 1\<rparr>),
      ROOT_ENCRYPTION_KEY = Some ''root'',
      ENCRYPTION_KEY = None,
      createSecretBlindIndex = (\<lambda>r k.
        \<lparr>bx_keyEncoding = ''base64'', bx_iv = ''iv'', bx_tag = ''tag'',
         bx_algorithm = ''aes-256-gcm'', bx_ciphertext = ''salt''\<rparr>),
      slugify = map (\<lambda>c. if c = CHR ''A'' then CHR ''a'' else c),
      alphaNumericNanoId = (\<lambda>n. replicate n (CHR ''x'')),
      generateKeyPair = (\<lambda>i. (''pub'', ''priv'')),
      createProjectKey = (\<lambda>pk sk. (''key<'' @ pk @ ''>'', ''nonce'')),
      infisicalSymmetricEncypt = (\<lambda>x.
        \<lparr>s_iv = ''iv'', s_tag = ''tag'', s_ciphertext = ''sealed<'' @ x @ ''>'',
         s_encoding = ''utf8'', s_algorithm = ''aes-256-gcm''\<rparr>),
      decryptAsymmetric = (\<lambda>c n pk sk. c),
      encryptAsymmetric = (\<lambda>x pk sk. (x @ ''for<'' @ pk @ ''>'', ''nonce'')),
      ROOT_FOLDER_NAME = ''root''\<rparr>"

definition demo_tables :: tables where
  "demo_tables =
     \<lparr>next_id = 10,
      users = [\<lparr>u_id = 1, u_isGhost = False, u_orgId = None, u_publicKey = Some ''alice-pub''\<rparr>,
               \<lparr>u_id = 2, u_isGhost = False, u_orgId = None, u_publicKey = None\<rparr>],
      projects = [],
      project_memberships = [],
      project_user_membership_roles = [],
      secret_blind_indexes = [],
      project_environments = [],
      secret_folders = [],
      project_keys = [],
      project_bots = [],
      identity_org_memberships =
        [\<lparr>iom_id = 5, iom_identityId = 7, iom_orgId = ''org1'', iom_role = OrgCustom,
          iom_roleId = Some 6\<rparr>],
      identity_project_memberships = [],
      identity_project_membership_roles = []\<rparr>"

definition demo_world :: world where
  "demo_world = \<lparr>committed = demo_tables, pending = demo_tables, deleted_keys = []\<rparr>"

definition user_dto :: TCreateProjectDTO where
  "user_dto =
     \<lparr>actor = USER, actorAuthMethod = None, actorId = 1, actorOrgId = Some ''org1'',
      workspaceName = ''Acme'', slug = None\<rparr>"

definition identity_dto :: TCreateProjectDTO where
  "identity_dto =
     \<lparr>actor = IDENTITY, actorAuthMethod = None, actorId = 7, actorOrgId = Some ''org1'',
      workspaceName = ''Acme'', slug = None\<rparr>"

text \<open>The organization's Member role allows a pair the identity's permission lacks.\<close>

definition member_heavy_env :: "rules env" where
  "member_heavy_env =
     demo_env\<lparr>getOrgPermissionByRole := (\<lambda>r orgId. Inr ([(1, 0), (9, 9)], None))\<rparr>"

text \<open>The plan allows one workspace and one is in use.\<close>

definition at_limit_env :: "rules env" where
  "at_limit_env = demo_env\<lparr>getPlan := (\<lambda>orgId. \<lparr>workspaceLimit = Some 1, workspacesUsed = 1\<rparr>)\<rparr>"

text \<open>The insert of the project bot raises.\<close>

definition bot_failure_env :: "rules env" where
  "bot_failure_env = demo_env\<lparr>fails := (\<lambda>c. c = BotCreate)\<rparr>"

text \<open>The lookup of the custodian's latest key comes back empty.\<close>

definition lost_key_env :: "rules env" where
  "lost_key_env = demo_env\<lparr>fails := (\<lambda>c. c = LatestKeyNotFound)\<rparr>"

text \<open>The key store is unreachable.\<close>

definition store_down_env :: "rules env" where
  "store_down_env = demo_env\<lparr>fails := (\<lambda>c. c = KeyStoreDeleteItem)\<rparr>"

text \<open>The caller is a plain member of the project, or may delete it.\<close>

definition member_env :: "rules env" where
  "member_env = demo_env\<lparr>getProjectPermission := (\<lambda>a i pid m aOrg. Inr ([], (\<lambda>r. r = Member)))\<rparr>"

definition deleter_env :: "rules env" where
  "deleter_env =
     demo_env\<lparr>getProjectPermission := (\<lambda>a i pid m aOrg. Inr ([(3, 0)], (\<lambda>r. r = Admin)))\<rparr>"

definition acme_tables :: tables where
  "acme_tables =
     demo_tables\<lparr>projects :=
       [\<lparr>p_id = 3, p_name = ''Acme'', p_orgId = ''org1'', p_slug = ''acme'', p_version = V2,
         p_pitVersionLimit = 10\<rparr>]\<rparr>"

definition acme_world :: world where
  "acme_world = \<lparr>committed = acme_tables, pending = acme_tables, deleted_keys = []\<rparr>"

definition limit_dto :: TUpdateProjectVersionLimitDTO where
  "limit_dto =
     \<lparr>actor = USER, actorAuthMethod = None, actorId = 1, actorOrgId = Some ''org1'',
      pitVersionLimit = 42, workspaceSlug = ''acme''\<rparr>"

definition delete_dto :: TDeleteProjectDTO where
  "delete_dto =
     \<lparr>actor = USER, actorAuthMethod = None, actorId = 1, actorOrgId = Some ''org1'',
      filter_by = ID 3\<rparr>"

definition empty_slug_dto :: TCreateProjectDTO where
  "empty_slug_dto = user_dto\<lparr>slug := Some []\<rparr>"

definition keyless_dto :: TCreateProjectDTO where
  "keyless_dto = user_dto\<lparr>actorId := 2\<rparr>"

subsection \<open>Vocabulary of the properties\<close>

text \<open>
  A step touches only the working copy of the transaction: whatever it returns, the
  committed tables and the cache log are as before.
\<close>

definition pending_only :: "'a io \<Rightarrow> bool" where
  "pending_only m =
     (\<forall>w r w'. m w = (r, w') \<longrightarrow> committed w' = committed w \<and> deleted_keys w' = deleted_keys w)"

text \<open>
  Every identifier stored in the tables was minted before: it is below the counter.
\<close>

definition wf_tables :: "tables \<Rightarrow> bool" where
  "wf_tables t =
     ((\<forall>u \<in> set (users t). u_id u < next_id t)
      \<and> (\<forall>p \<in> set (projects t). p_id p < next_id t)
      \<and> (\<forall>e \<in> set (project_environments t). e_projectId e < next_id t)
      \<and> (\<forall>f \<in> set (secret_folders t). f_envId f < next_id t)
      \<and> (\<forall>k \<in> set (project_keys t). k_projectId k < next_id t)
      \<and> (\<forall>b \<in> set (project_bots t). b_projectId b < next_id t))"

text \<open>The rows a successful \<^verbatim>\<open>createProject\<close> stores, \<open>n\<close> being the counter before.\<close>

definition ghost_row :: "'p env \<Rightarrow> organization \<Rightarrow> nat \<Rightarrow> user_row" where
  "ghost_row E org n =
     \<lparr>u_id = n, u_isGhost = True, u_orgId = Some (org_id org),
      u_publicKey = Some (fst (generateKeyPair E n))\<rparr>"

definition new_project :: "'p env \<Rightarrow> TCreateProjectDTO \<Rightarrow> organization \<Rightarrow> nat \<Rightarrow> project_row" where
  "new_project E dto org n =
     \<lparr>p_id = Suc n, p_name = workspaceName dto, p_orgId = org_id org,
      p_slug = or_else (slug dto) (slugify E (workspaceName dto @ ''-'' @ alphaNumericNanoId E 4)),
      p_version = V2, p_pitVersionLimit = 10\<rparr>"

definition new_envs :: "nat \<Rightarrow> env_row list" where
  "new_envs n =
     [\<lparr>e_id = n + 5, e_name = ''Development'', e_slug = ''dev'', e_projectId = Suc n, e_position = 1\<rparr>,
      \<lparr>e_id = n + 6, e_name = ''Staging'', e_slug = ''staging'', e_projectId = Suc n, e_position = 2\<rparr>,
      \<lparr>e_id = n + 7, e_name = ''Production'', e_slug = ''prod'', e_projectId = Suc n, e_position = 3\<rparr>]"

definition new_folders :: "'p env \<Rightarrow> nat \<Rightarrow> folder_row list" where
  "new_folders E n =
     [\<lparr>f_id = n + 8, f_name = ROOT_FOLDER_NAME E, f_envId = n + 5, f_version = 1\<rparr>,
      \<lparr>f_id = n + 9, f_name = ROOT_FOLDER_NAME E, f_envId = n + 6, f_version = 1\<rparr>,
      \<lparr>f_id = n + 10, f_name = ROOT_FOLDER_NAME E, f_envId = n + 7, f_version = 1\<rparr>]"

text \<open>
  \<open>provisioned E dto org perm t r t'\<close>: tables \<open>t'\<close> are tables \<open>t\<close> with exactly the
  rows of one provisioning run added, and \<open>r\<close> is what the run returns.
\<close>

definition provisioned ::
  "'p env \<Rightarrow> TCreateProjectDTO \<Rightarrow> organization \<Rightarrow> 'p \<Rightarrow> tables \<Rightarrow> project_result \<Rightarrow> tables \<Rightarrow> bool"
  where
  "provisioned E dto org perm t r t' =
    (let n = next_id t in
      r = \<lparr>r_project = new_project E dto org n, r_environments = new_envs n, r__id = Suc n\<rparr>
    \<and> users t' = users t @ [ghost_row E org n]
    \<and> projects t' = projects t @ [new_project E dto org n]
    \<and> project_environments t' = project_environments t @ new_envs n
    \<and> secret_folders t' = secret_folders t @ new_folders E n
    \<and> (\<exists>b. project_bots t' = project_bots t @ [b] \<and> b_projectId b = Suc n
           \<and> b_senderId b = n \<and> b_publicKey b = fst (generateKeyPair E n))
    \<and> (\<exists>x. secret_blind_indexes t' = secret_blind_indexes t @ [x] \<and> bi_projectId x = Suc n)
    \<and> (\<exists>gk uks. project_keys t' = project_keys t @ gk # uks
           \<and> k_projectId gk = Suc n \<and> k_receiverId gk = n \<and> k_senderId gk = n
           \<and> (if actor dto = USER
               then \<exists>uk. uks = [uk] \<and> k_projectId uk = Suc n \<and> k_receiverId uk = actorId dto
                      \<and> k_senderId uk = n
               else uks = []))
    \<and> project_memberships t' = project_memberships t
          @ \<lparr>pm_id = n + 2, pm_userId = n, pm_projectId = Suc n\<rparr>
          # (if actor dto = USER
             then [\<lparr>pm_id = n + 13, pm_userId = actorId dto, pm_projectId = Suc n\<rparr>] else [])
    \<and> project_user_membership_roles t' = project_user_membership_roles t
          @ \<lparr>pr_id = n + 3, pr_projectMembershipId = n + 2, pr_role = Admin, pr_customRoleId = None\<rparr>
          # (if actor dto = USER
             then [\<lparr>pr_id = n + 14, pr_projectMembershipId = n + 13, pr_role = Admin,
                    pr_customRoleId = None\<rparr>]
             else [])
    \<and> identity_org_memberships t' = identity_org_memberships t
    \<and> identity_project_memberships t' = identity_project_memberships t
          @ (if actor dto = IDENTITY
             then [\<lparr>im_id = n + 13, im_identityId = actorId dto, im_projectId = Suc n\<rparr>] else [])
    \<and> (if actor dto = IDENTITY
        then (case getOrgPermissionByRole E OrgMember (org_id org) of
                Inl _ \<Rightarrow> False
              | Inr (rp, cr) \<Rightarrow>
                  isAtLeastAsPrivileged E perm rp
                  \<and> identity_project_membership_roles t'
                      = identity_project_membership_roles t
                        @ [\<lparr>pr_id = n + 14, pr_projectMembershipId = n + 13,
                            pr_role = (if cr \<noteq> None then Custom else Admin),
                            pr_customRoleId = map_option cr_id cr\<rparr>])
        else identity_project_membership_roles t' = identity_project_membership_roles t))"

text \<open>
  What can go wrong inside the provisioning transaction on the path of the given
  actor kind, in order: the data-access calls that can raise, and the lookup of the
  latest key coming back empty.
\<close>

definition provisioning_calls :: "ActorType \<Rightarrow> dal_call list" where
  "provisioning_calls a =
     [AddGhostUser, ProjectCreate, GhostMembershipCreate, GhostRoleCreate, BlindIndexCreate,
      EnvInsertMany, FolderInsertMany, GhostKeyCreate, BotCreate, FindLatestProjectKey,
      LatestKeyNotFound]
     @ (if a = USER then [FindUserEncKey, UserMembershipCreate, UserRoleCreate, UserKeyCreate]
        else if a = IDENTITY
        then [FindIdentityOrgMembership, IdentityMembershipCreate, IdentityRoleCreate]
        else [])"

definition plan_limit_message :: string where
  "plan_limit_message =
     ''Failed to create workspace due to plan limit reached. Upgrade plan to add more workspaces.''"

definition plan_limit_reached :: "plan \<Rightarrow> bool" where
  "plan_limit_reached pl =
     (case workspaceLimit pl of None \<Rightarrow> False | Some limit \<Rightarrow> workspacesUsed pl \<ge> limit)"

definition cache_key :: "string option \<Rightarrow> string" where
  "cache_key orgId = ''infisical-cloud-plan-'' @ template orgId"

section \<open>Properties\<close>

subsection \<open>Steps that only touch the working copy\<close>

lemma pending_only_resolve: "pending_only (resolve a)"
  by (simp add: pending_only_def resolve_def)

lemma pending_only_throw: "pending_only (throw e)"
  by (simp add: pending_only_def throw_def)

lemma pending_only_await:
  "pending_only m \<Longrightarrow> (\<And>a. pending_only (f a)) \<Longrightarrow> pending_only (await m f)"
  unfolding pending_only_def await_def
  by (auto split: prod.splits sum.splits)

lemma pending_only_dal_tx: "pending_only (dal E c (Some Tx) f)"
  by (auto simp: pending_only_def dal_def run_dal_def split: if_splits prod.splits)

lemma pending_only_dal_query: "pending_only (dal E c h (query q))"
  by (auto simp: pending_only_def dal_def run_dal_def query_def
      split: if_splits prod.splits option.splits tx.splits)

lemma pending_only_catch_null: "pending_only m \<Longrightarrow> pending_only (catch_null m)"
  unfolding pending_only_def catch_null_def
  by (auto split: prod.splits sum.splits)

lemma pending_only_addGhostUser: "pending_only (addGhostUser E orgId (Some Tx))"
  by (simp add: addGhostUser_def pending_only_dal_tx)

lemma pending_only_findLatestProjectKey: "pending_only (findLatestProjectKey E u p h)"
  by (simp add: findLatestProjectKey_def pending_only_dal_query)

lemmas pending_only_intros =
  pending_only_await pending_only_dal_tx pending_only_dal_query pending_only_resolve
  pending_only_throw pending_only_addGhostUser pending_only_catch_null
  pending_only_findLatestProjectKey

lemma pending_only_createProject_user:
  "pending_only (createProject_user E dto om g p lk Tx)"
  unfolding createProject_user_def
  by (auto intro!: pending_only_intros split: option.splits list.splits)

lemma pending_only_createProject_identity:
  "pending_only (createProject_identity E dto org perm p Tx)"
  unfolding createProject_identity_def
  by (auto intro!: pending_only_intros split: option.splits sum.splits prod.splits)

lemma pending_only_createProject_tx:
  "pending_only (createProject_tx E dto org perm om bi Tx)"
  unfolding createProject_tx_def Let_def
  by (auto intro!: pending_only_intros pending_only_createProject_user
        pending_only_createProject_identity split: option.splits prod.splits)

lemma pending_only_deleteProject_tx: "pending_only (deleteProject_tx E p Tx)"
  unfolding deleteProject_tx_def
  by (auto intro!: pending_only_intros split: option.splits)

lemma transaction_rejected:
  assumes "pending_only (body Tx)" and "transaction body w = (Inl e, w')"
  shows "committed w' = committed w \<and> deleted_keys w' = deleted_keys w"
  using assms unfolding transaction_def pending_only_def
  by (auto split: prod.splits sum.splits)

subsection \<open>What a resolved step has done\<close>

lemma await_Inr:
  "await m f w = (Inr b, w') \<longleftrightarrow> (\<exists>a w1. m w = (Inr a, w1) \<and> f a w1 = (Inr b, w'))"
  by (auto simp: await_def split: prod.splits sum.splits)

lemma dal_tx_Inr:
  "dal E c (Some Tx) f w = (Inr a, w1) \<longleftrightarrow>
     \<not> fails E c \<and> a = fst (f (pending w)) \<and> w1 = w\<lparr>pending := snd (f (pending w))\<rparr>"
  by (auto simp: dal_def run_dal_def split: prod.splits)

lemma dal_none_Inr:
  "dal E c None f w = (Inr a, w1) \<longleftrightarrow>
     \<not> fails E c \<and> a = fst (f (committed w)) \<and> w1 = w\<lparr>committed := snd (f (committed w))\<rparr>"
  by (auto simp: dal_def run_dal_def split: prod.splits)

lemma resolve_Inr: "resolve a w = (Inr b, w') \<longleftrightarrow> b = a \<and> w' = w"
  by (auto simp: resolve_def)

lemma throw_Inr: "throw e w = (Inr b, w') \<longleftrightarrow> False"
  by (auto simp: throw_def)

lemma transaction_Inr:
  "transaction body w = (Inr a, w') \<longleftrightarrow>
     (\<exists>w1. body Tx (w\<lparr>pending := committed w\<rparr>) = (Inr a, w1) \<and> w' = w1\<lparr>committed := pending w1\<rparr>)"
  by (auto simp: transaction_def split: prod.splits sum.splits)

lemma keyStore_deleteItem_Inr:
  "keyStore_deleteItem E key w = (Inr u, w') \<longleftrightarrow>
     \<not> fails E KeyStoreDeleteItem \<and> w' = w\<lparr>deleted_keys := deleted_keys w @ [key]\<rparr>"
  by (auto simp: keyStore_deleteItem_def)

lemma keyStore_deleteItem_Inl:
  "keyStore_deleteItem E key w = (Inl e, w') \<longleftrightarrow>
     fails E KeyStoreDeleteItem \<and> e = KeyStoreError \<and> w' = w"
  by (auto simp: keyStore_deleteItem_def)

lemmas resolved = await_Inr dal_tx_Inr dal_none_Inr resolve_Inr throw_Inr

lemmas inserts =
  insert_key_def insert_user_role_def insert_membership_def query_def Let_def
  insert_user_def insert_project_def insert_blind_index_def insertMany_envs_def
  insertMany_folders_def insert_bot_def insert_identity_membership_def
  insert_identity_role_def mint_many_def DEFAULT_PROJECT_ENVS_def

lemma findUserEncKey_Some:
  assumes "findUserEncKeyByUserId_q i t = Some u"
  shows "uk_id u = i \<and> (\<exists>x \<in> set (users t). u_id x = i \<and> u_publicKey x = Some (uk_publicKey u))"
proof -
  from assms obtain x pk
    where f: "List.find (\<lambda>u. u_id u = i \<and> u_publicKey u \<noteq> None) (users t) = Some x"
      and pk: "u_publicKey x = Some pk" and u: "u = \<lparr>uk_id = u_id x, uk_publicKey = pk\<rparr>"
    by (auto simp: findUserEncKeyByUserId_q_def split: option.splits)
  from f have "x \<in> set (users t)" "u_id x = i"
    by (auto simp: find_Some_iff)
  with pk u show ?thesis by auto
qed

text \<open>
  The working copy after the callback of \<^verbatim>\<open>createProject\<close> has resolved, table by
  table.
\<close>

lemma createProject_tx_resolved:
  assumes "createProject_tx E dto org perm om bi Tx w = (Inr r, w')"
  shows "committed w' = committed w \<and> deleted_keys w' = deleted_keys w
    \<and> provisioned E dto org perm (pending w) r (pending w')
    \<and> (actor dto = USER \<longrightarrow> findUserEncKeyByUserId_q (actorId dto) (committed w) \<noteq> None)"
  using assms
  unfolding createProject_tx_def createProject_user_def createProject_identity_def
    addGhostUser_def findLatestProjectKey_def provisioned_def
  apply (clarsimp simp: resolved inserts assignWorkspaceKeysToMembers_def
      ghost_row_def new_project_def new_envs_def new_folders_def
      split: option.splits list.splits prod.splits if_splits sum.splits)
  apply (auto dest!: findUserEncKey_Some)
  done

subsection \<open>What a rejected step has done\<close>

lemma await_Inl:
  "await m f w = (Inl e, w') \<longleftrightarrow>
     m w = (Inl e, w') \<or> (\<exists>a w1. m w = (Inr a, w1) \<and> f a w1 = (Inl e, w'))"
  by (auto simp: await_def split: prod.splits sum.splits)

lemma dal_Inl:
  "dal E c h f w = (Inl e, w') \<longleftrightarrow> fails E c \<and> e = DatabaseError c \<and> w' = w"
  by (auto simp: dal_def split: prod.splits)

lemma throw_Inl: "throw e w = (Inl e', w') \<longleftrightarrow> e' = e \<and> w' = w"
  by (auto simp: throw_def)

lemma resolve_Inl: "resolve a w = (Inl e, w') \<longleftrightarrow> False"
  by (auto simp: resolve_def)

lemmas rejected = await_Inl dal_Inl throw_Inl resolve_Inl

lemma findLatestProjectKey_None:
  "findLatestProjectKey_q u p t = None \<longleftrightarrow>
     (let ks = filter (\<lambda>k. k_projectId k = p \<and> k_receiverId k = u) (project_keys t)
      in ks = [] \<or> \<not> (\<exists>x \<in> set (users t). u_id x = k_senderId (last ks) \<and> u_publicKey x \<noteq> None))"
proof -
  let ?ks = "filter (\<lambda>k. k_projectId k = p \<and> k_receiverId k = u) (project_keys t)"
  show ?thesis
  proof (cases "?ks = []")
    case True
    then show ?thesis by (simp add: findLatestProjectKey_q_def)
  next
    case False
    then obtain k ks' where r: "rev ?ks = k # ks'" by (cases "rev ?ks") auto
    then have l: "last ?ks = k" by (metis hd_rev list.sel(1))
    show ?thesis
      using False r l
      by (auto simp: findLatestProjectKey_q_def Let_def find_None_iff split: option.splits
          dest!: find_Some_iff[THEN iffD1])
  qed
qed

text \<open>
  When no data-access call raises, the callback of \<^verbatim>\<open>createProject\<close> rejects at one
  of five places only.
\<close>

lemma createProject_tx_rejected:
  assumes "createProject_tx E dto org perm om bi Tx w = (Inl e, w')"
    and "\<forall>c. c \<noteq> LatestKeyNotFound \<and> c \<noteq> KeyStoreDeleteItem \<longrightarrow> \<not> fails E c"
  shows "(fails E LatestKeyNotFound \<and> e = Error ''Latest key not found for user'')
       \<or> (actor dto = USER \<and> findUserEncKeyByUserId_q (actorId dto) (committed w) = None
            \<and> e = Error ''User not found'')
       \<or> (actor dto = IDENTITY \<and>
            (findIdentityOrgMembership_q (actorId dto) (org_id org) (pending w) = None
              \<and> e = BadRequestError (''Failed to find identity with id '' @ digits (actorId dto))
             \<or> getOrgPermissionByRole E OrgMember (org_id org) = Inl e
             \<or> (\<exists>rp cr. getOrgPermissionByRole E OrgMember (org_id org) = Inr (rp, cr)
                   \<and> \<not> isAtLeastAsPrivileged E perm rp
                   \<and> e = ForbiddenRequestError
                           ''Failed to add identity to project with more privileged role'')))"
  using assms
  unfolding createProject_tx_def createProject_user_def createProject_identity_def addGhostUser_def
    findLatestProjectKey_def
  by (clarsimp simp: rejected resolved inserts assignWorkspaceKeysToMembers_def
      findLatestProjectKey_None findIdentityOrgMembership_q_def
      split: option.splits list.splits prod.splits if_splits sum.splits)

subsection \<open>\<^verbatim>\<open>createProject\<close> as a whole\<close>

lemma createProject_Inr:
  assumes "createProject E dto w = (Inr r, w')"
  shows "\<exists>org perm om w1.
      orgDAL_findOne E (actorOrgId dto) = Some org
    \<and> getOrgPermission E (actor dto) (actorId dto) (org_id org) (actorAuthMethod dto) (actorOrgId dto)
        = Inr (perm, om)
    \<and> org_can E perm OrgCreate Workspace
    \<and> \<not> plan_limit_reached (getPlan E (org_id org))
    \<and> \<not> fails E KeyStoreDeleteItem
    \<and> createProject_tx E dto org perm om
         (createSecretBlindIndex E (ROOT_ENCRYPTION_KEY E) (ENCRYPTION_KEY E)) Tx
         (w\<lparr>pending := committed w\<rparr>) = (Inr r, w1)
    \<and> w' = w1\<lparr>committed := pending w1, deleted_keys := deleted_keys w1 @ [cache_key (actorOrgId dto)]\<rparr>"
  using assms unfolding createProject_def
  by (auto simp: resolved transaction_Inr keyStore_deleteItem_Inr Let_def plan_limit_reached_def
      cache_key_def split: option.splits sum.splits prod.splits if_splits)

lemma createProject_resolved:
  assumes "createProject E dto w = (Inr r, w')"
  shows "\<exists>org perm om.
      orgDAL_findOne E (actorOrgId dto) = Some org
    \<and> getOrgPermission E (actor dto) (actorId dto) (org_id org) (actorAuthMethod dto) (actorOrgId dto)
        = Inr (perm, om)
    \<and> org_can E perm OrgCreate Workspace
    \<and> \<not> plan_limit_reached (getPlan E (org_id org))
    \<and> provisioned E dto org perm (committed w) r (committed w')
    \<and> (actor dto = USER \<longrightarrow> findUserEncKeyByUserId_q (actorId dto) (committed w) \<noteq> None)
    \<and> deleted_keys w' = deleted_keys w @ [cache_key (actorOrgId dto)]"
proof -
  from createProject_Inr[OF assms] obtain org perm om w1 where
    h: "orgDAL_findOne E (actorOrgId dto) = Some org"
       "getOrgPermission E (actor dto) (actorId dto) (org_id org) (actorAuthMethod dto) (actorOrgId dto)
          = Inr (perm, om)"
       "org_can E perm OrgCreate Workspace"
       "\<not> plan_limit_reached (getPlan E (org_id org))"
    and t: "createProject_tx E dto org perm om
         (createSecretBlindIndex E (ROOT_ENCRYPTION_KEY E) (ENCRYPTION_KEY E)) Tx
         (w\<lparr>pending := committed w\<rparr>) = (Inr r, w1)"
    and w': "w' = w1\<lparr>committed := pending w1, deleted_keys := deleted_keys w1 @ [cache_key (actorOrgId dto)]\<rparr>"
    by blast
  from createProject_tx_resolved[OF t] w'
  have "provisioned E dto org perm (committed w) r (committed w')"
    "actor dto = USER \<longrightarrow> findUserEncKeyByUserId_q (actorId dto) (committed w) \<noteq> None"
    "deleted_keys w' = deleted_keys w @ [cache_key (actorOrgId dto)]"
    by simp_all
  with h show ?thesis by blast
qed

text \<open>
  Where \<^verbatim>\<open>createProject\<close> can reject: before the transaction (the world is untouched),
  inside it (the working copy is dropped), or after it has committed, when the key
  store raises.
\<close>

lemma createProject_Inl_cases:
  assumes "createProject E dto w = (Inl e, w')"
  shows "(orgDAL_findOne E (actorOrgId dto) = None \<and> e = TypeError \<and> w' = w)
    \<or> (\<exists>org. orgDAL_findOne E (actorOrgId dto) = Some org \<and>
         (getOrgPermission E (actor dto) (actorId dto) (org_id org) (actorAuthMethod dto) (actorOrgId dto)
            = Inl e \<and> w' = w
          \<or> (\<exists>perm om.
               getOrgPermission E (actor dto) (actorId dto) (org_id org) (actorAuthMethod dto)
                 (actorOrgId dto) = Inr (perm, om)
             \<and> (\<not> org_can E perm OrgCreate Workspace \<and> e = ForbiddenError \<and> w' = w
                \<or> org_can E perm OrgCreate Workspace \<and> plan_limit_reached (getPlan E (org_id org))
                    \<and> e = BadRequestError plan_limit_message \<and> w' = w
                \<or> org_can E perm OrgCreate Workspace \<and> \<not> plan_limit_reached (getPlan E (org_id org))
                    \<and> (\<exists>w1. createProject_tx E dto org perm om
                               (createSecretBlindIndex E (ROOT_ENCRYPTION_KEY E) (ENCRYPTION_KEY E)) Tx
                               (w\<lparr>pending := committed w\<rparr>) = (Inl e, w1)
                            \<and> w' = w1\<lparr>pending := committed w1\<rparr>)
                \<or> org_can E perm OrgCreate Workspace \<and> \<not> plan_limit_reached (getPlan E (org_id org))
                    \<and> fails E KeyStoreDeleteItem \<and> e = KeyStoreError
                    \<and> (\<exists>r w1. createProject_tx E dto org perm om
                               (createSecretBlindIndex E (ROOT_ENCRYPTION_KEY E) (ENCRYPTION_KEY E)) Tx
                               (w\<lparr>pending := committed w\<rparr>) = (Inr r, w1)
                            \<and> w' = w1\<lparr>committed := pending w1\<rparr>)))))"
  using assms unfolding createProject_def
  by (auto simp: rejected resolved keyStore_deleteItem_def Let_def plan_limit_reached_def
      plan_limit_message_def transaction_def
      split: option.splits sum.splits prod.splits if_splits)

lemma createProject_tx_resolved_all_calls:
  assumes "createProject_tx E dto org perm om bi Tx w = (Inr r, w')"
  shows "\<forall>c \<in> set (provisioning_calls (actor dto)). \<not> fails E c"
  using assms
  unfolding createProject_tx_def createProject_user_def createProject_identity_def
    addGhostUser_def findLatestProjectKey_def provisioning_calls_def
  by (clarsimp simp: resolved query_def Let_def
      split: option.splits prod.splits list.splits sum.splits if_splits)

text \<open>
  A rejected \<^verbatim>\<open>createProject\<close> has deleted no cache key. It has left the committed
  tables as they were, unless the key store raised: then the transaction had
  committed, and the tables are those of a resolved call.
\<close>

lemma createProject_Inl:
  assumes "createProject E dto w = (Inl e, w')"
  shows "deleted_keys w' = deleted_keys w
    \<and> (committed w' = committed w
        \<or> (fails E KeyStoreDeleteItem \<and> e = KeyStoreError
            \<and> (\<forall>c \<in> set (provisioning_calls (actor dto)). \<not> fails E c)
            \<and> (\<exists>org perm om r.
                  orgDAL_findOne E (actorOrgId dto) = Some org
                \<and> getOrgPermission E (actor dto) (actorId dto) (org_id org) (actorAuthMethod dto)
                     (actorOrgId dto) = Inr (perm, om)
                \<and> provisioned E dto org perm (committed w) r (committed w')
                \<and> (actor dto = USER \<longrightarrow>
                      findUserEncKeyByUserId_q (actorId dto) (committed w) \<noteq> None))))"
proof -
  from createProject_Inl_cases[OF assms]
  consider (untouched) "w' = w"
    | (rolled_back) org perm om w1 where
        "createProject_tx E dto org perm om
           (createSecretBlindIndex E (ROOT_ENCRYPTION_KEY E) (ENCRYPTION_KEY E)) Tx
           (w\<lparr>pending := committed w\<rparr>) = (Inl e, w1)"
        "w' = w1\<lparr>pending := committed w1\<rparr>"
    | (key_store) org perm om r w1 where
        "orgDAL_findOne E (actorOrgId dto) = Some org"
        "getOrgPermission E (actor dto) (actorId dto) (org_id org) (actorAuthMethod dto)
           (actorOrgId dto) = Inr (perm, om)"
        "fails E KeyStoreDeleteItem" "e = KeyStoreError"
        "createProject_tx E dto org perm om
           (createSecretBlindIndex E (ROOT_ENCRYPTION_KEY E) (ENCRYPTION_KEY E)) Tx
           (w\<lparr>pending := committed w\<rparr>) = (Inr r, w1)"
        "w' = w1\<lparr>committed := pending w1\<rparr>"
    by blast
  then show ?thesis
  proof cases
    case untouched
    then show ?thesis by simp
  next
    case rolled_back
    from pending_only_createProject_tx[of E dto org perm om] rolled_back(1)
    have "committed w1 = committed w \<and> deleted_keys w1 = deleted_keys w"
      unfolding pending_only_def by fastforce
    with rolled_back(2) show ?thesis by simp
  next
    case key_store
    from createProject_tx_resolved[OF key_store(5)] key_store(6)
    have "deleted_keys w' = deleted_keys w"
      "provisioned E dto org perm (committed w) r (committed w')"
      "actor dto = USER \<longrightarrow> findUserEncKeyByUserId_q (actorId dto) (committed w) \<noteq> None"
      by simp_all
    with key_store(1-4) createProject_tx_resolved_all_calls[OF key_store(5)]
    show ?thesis by blast
  qed
qed

lemma createProject_Inl_unchanged:
  assumes "createProject E dto w = (Inl e, w')" and "\<not> fails E KeyStoreDeleteItem"
  shows "committed w' = committed w \<and> deleted_keys w' = deleted_keys w"
  using createProject_Inl[OF assms(1)] assms(2) by blast

text \<open>
  Enough for \<^verbatim>\<open>createProject\<close> to resolve: no call raises, the actor may create
  workspaces, the plan has room, and the branch of the actor finds what it looks up.
\<close>

lemma createProject_resolves:
  assumes nf: "\<forall>c. \<not> fails E c"
    and org: "orgDAL_findOne E (actorOrgId dto) = Some org"
    and perm: "getOrgPermission E (actor dto) (actorId dto) (org_id org) (actorAuthMethod dto)
                 (actorOrgId dto) = Inr (perm, om)"
    and can: "org_can E perm OrgCreate Workspace"
    and plan: "\<not> plan_limit_reached (getPlan E (org_id org))"
    and user: "actor dto = USER \<longrightarrow> findUserEncKeyByUserId_q (actorId dto) (committed w) \<noteq> None"
    and ident: "actor dto = IDENTITY \<longrightarrow>
                  findIdentityOrgMembership_q (actorId dto) (org_id org) (committed w) \<noteq> None
                  \<and> (\<exists>rp cr. getOrgPermissionByRole E OrgMember (org_id org) = Inr (rp, cr)
                        \<and> isAtLeastAsPrivileged E perm rp)"
  shows "\<exists>r w'. createProject E dto w = (Inr r, w')"
proof -
  obtain x w' where run: "createProject E dto w = (x, w')" by (cases "createProject E dto w")
  show ?thesis
  proof (cases x)
    case (Inr r)
    with run show ?thesis by blast
  next
    case (Inl e)
    with run have "createProject E dto w = (Inl e, w')" by simp
    from createProject_Inl_cases[OF this] org perm can plan nf
    obtain w1 where "createProject_tx E dto org perm om
          (createSecretBlindIndex E (ROOT_ENCRYPTION_KEY E) (ENCRYPTION_KEY E)) Tx
          (w\<lparr>pending := committed w\<rparr>) = (Inl e, w1)"
      by auto
    from createProject_tx_rejected[OF this] nf user ident
    show ?thesis by auto
  qed
qed

section \<open>Concrete runs\<close>

lemmas demo_defs = demo_env_def user_dto_def identity_dto_def demo_world_def demo_tables_def

lemma demo_user_resolves: "\<exists>r w'. createProject demo_env user_dto demo_world = (Inr r, w')"
  by (rule createProject_resolves[where org = "\<lparr>org_id = ''org1''\<rparr>"
        and perm = "[(1, 0), (1, 1), (2, 0)]" and om = "\<lparr>om_id = 0\<rparr>"])
     (simp_all add: demo_defs plan_limit_reached_def findUserEncKeyByUserId_q_def)

lemma demo_identity_resolves: "\<exists>r w'. createProject demo_env identity_dto demo_world = (Inr r, w')"
  by (rule createProject_resolves[where org = "\<lparr>org_id = ''org1''\<rparr>"
        and perm = "[(1, 0), (1, 1), (2, 0)]" and om = "\<lparr>om_id = 0\<rparr>"])
     (simp_all add: demo_defs plan_limit_reached_def findIdentityOrgMembership_q_def)

lemma wf_demo: "wf_tables (committed demo_world)"
  by (simp add: wf_tables_def demo_defs)

lemma filter_minted_before:
  assumes "\<forall>x \<in> set xs. f x < (n::nat)" and "n \<le> m"
  shows "filter (\<lambda>x. f x = m) xs = []"
  using assms by (fastforce simp: filter_empty_conv)

section \<open>The claims\<close>

subsection \<open>C3: a rejected provisioning leaves nothing behind\<close>

lemma createProject_tx_rolled_back:
  "transaction (createProject_tx E dto org perm om bi) w = (Inl e, w') \<Longrightarrow>
     committed w' = committed w \<and> deleted_keys w' = deleted_keys w"
  by (rule transaction_rejected[where body = "createProject_tx E dto org perm om bi"])
     (rule pending_only_createProject_tx)

text \<open>
  Claim C3. If any step of the provisioning transaction raises (a data-access call of
  steps 1--8, the check that the custodian's latest key exists, a lookup of the actor's
  branch), the whole transaction aborts and no row of that attempt remains. First
  part: whenever the transaction around the callback of \<^verbatim>\<open>createProject\<close> rejects,
  whichever step raised and whatever the environment makes fail, the committed tables
  and the cache log are those from before. Second part: the same holds of every
  rejected call of \<^verbatim>\<open>createProject\<close>, provided the key store does not raise; the key
  store is called after the transaction has committed (line 327), and a call it
  rejects has left the rows. Third part: when any data-access call on the path of the
  actor raises, or the lookup of the custodian's latest key comes back empty, the call
  is rejected and leaves nothing. That the working copy is dropped on rejection is the
  behaviour of \<open>transaction\<close>; that every write of the callback goes to the working copy,
  because every data-access call in it is handed \<open>tx\<close>, is
  \<open>pending_only_createProject_tx\<close>.
\<close>

theorem createProject_atomic:
  "(transaction (createProject_tx E dto org perm om bi) w = (Inl e, w') \<longrightarrow>
      committed w' = committed w \<and> deleted_keys w' = deleted_keys w)
   \<and> (createProject E dto w = (Inl e, w') \<and> \<not> fails E KeyStoreDeleteItem \<longrightarrow>
        committed w' = committed w \<and> deleted_keys w' = deleted_keys w)
   \<and> (c \<in> set (provisioning_calls (actor dto)) \<and> fails E c \<longrightarrow>
        (\<exists>e w'. createProject E dto w = (Inl e, w')
           \<and> committed w' = committed w \<and> deleted_keys w' = deleted_keys w))"
proof (intro conjI; rule impI)
  assume "transaction (createProject_tx E dto org perm om bi) w = (Inl e, w')"
  then show "committed w' = committed w \<and> deleted_keys w' = deleted_keys w"
    by (rule createProject_tx_rolled_back)
next
  assume "createProject E dto w = (Inl e, w') \<and> \<not> fails E KeyStoreDeleteItem"
  then show "committed w' = committed w \<and> deleted_keys w' = deleted_keys w"
    using createProject_Inl_unchanged[of E dto w e w'] by blast
next
  assume c: "c \<in> set (provisioning_calls (actor dto)) \<and> fails E c"
  obtain x w1 where run: "createProject E dto w = (x, w1)" by (cases "createProject E dto w")
  show "\<exists>e w'. createProject E dto w = (Inl e, w')
           \<and> committed w' = committed w \<and> deleted_keys w' = deleted_keys w"
  proof (cases x)
    case (Inl e)
    with run have rej: "createProject E dto w = (Inl e, w1)" by simp
    from createProject_Inl[OF rej] c
    have "committed w1 = committed w \<and> deleted_keys w1 = deleted_keys w" by blast
    with rej show ?thesis by blast
  next
    case (Inr r)
    with run have "createProject E dto w = (Inr r, w1)" by simp
    from createProject_Inr[OF this] obtain org perm om w2 where
      "createProject_tx E dto org perm om
         (createSecretBlindIndex E (ROOT_ENCRYPTION_KEY E) (ENCRYPTION_KEY E)) Tx
         (w\<lparr>pending := committed w\<rparr>) = (Inr r, w2)"
      by blast
    from createProject_tx_resolved_all_calls[OF this] c show ?thesis by blast
  qed
qed

text \<open>
  Two runs. In the first the insert of the bot row (step 7) raises, after the
  custodian, the project, the membership, the blind index, the environments, the
  folders and the custodian's key grant were written to the working copy. In the
  second the lookup of the custodian's latest key comes back empty and the service
  raises its own error. Neither leaves a row.
\<close>

theorem createProject_atomic_witness:
  "BotCreate \<in> set (provisioning_calls (actor user_dto))
   \<and> fails bot_failure_env BotCreate
   \<and> isl (fst (createProject bot_failure_env user_dto demo_world))
   \<and> committed (snd (createProject bot_failure_env user_dto demo_world)) = committed demo_world
   \<and> deleted_keys (snd (createProject bot_failure_env user_dto demo_world)) = deleted_keys demo_world
   \<and> LatestKeyNotFound \<in> set (provisioning_calls (actor user_dto))
   \<and> fails lost_key_env LatestKeyNotFound
   \<and> \<not> fails lost_key_env KeyStoreDeleteItem
   \<and> fst (createProject lost_key_env user_dto demo_world)
       = Inl (Error ''Latest key not found for user'')
   \<and> committed (snd (createProject lost_key_env user_dto demo_world)) = committed demo_world
   \<and> deleted_keys (snd (createProject lost_key_env user_dto demo_world)) = deleted_keys demo_world"
proof -
  have h: "BotCreate \<in> set (provisioning_calls (actor user_dto)) \<and> fails bot_failure_env BotCreate"
    by (simp add: provisioning_calls_def bot_failure_env_def)
  from createProject_atomic[where c = BotCreate and dto = user_dto and E = bot_failure_env
      and w = demo_world] h
  obtain e w' where bot: "createProject bot_failure_env user_dto demo_world = (Inl e, w')"
    "committed w' = committed demo_world" "deleted_keys w' = deleted_keys demo_world"
    by blast
  have k: "LatestKeyNotFound \<in> set (provisioning_calls (actor user_dto))
      \<and> fails lost_key_env LatestKeyNotFound"
    by (simp add: provisioning_calls_def lost_key_env_def)
  have ks: "\<not> fails lost_key_env KeyStoreDeleteItem"
    by (simp add: lost_key_env_def)
  from createProject_atomic[where c = LatestKeyNotFound and dto = user_dto and E = lost_key_env
      and w = demo_world] k
  obtain e2 w2 where lost: "createProject lost_key_env user_dto demo_world = (Inl e2, w2)"
    by blast
  from createProject_atomic[where dto = user_dto and E = lost_key_env and w = demo_world
      and e = e2 and w' = w2] lost ks
  have same: "committed w2 = committed demo_world" "deleted_keys w2 = deleted_keys demo_world"
    by blast+
  have "e2 = Error ''Latest key not found for user''"
  proof -
    from createProject_Inl_cases[OF lost] ks
    obtain org perm om w1 where
      "createProject_tx lost_key_env user_dto org perm om
         (createSecretBlindIndex lost_key_env (ROOT_ENCRYPTION_KEY lost_key_env)
            (ENCRYPTION_KEY lost_key_env)) Tx
         (demo_world\<lparr>pending := committed demo_world\<rparr>) = (Inl e2, w1)"
      by (auto simp: lost_key_env_def demo_defs plan_limit_reached_def)
    from createProject_tx_rejected[OF this]
    show ?thesis
      by (auto simp: lost_key_env_def demo_defs findUserEncKeyByUserId_q_def)
  qed
  with bot lost same h k ks show ?thesis by simp
qed

text \<open>
  The key store is outside the transaction. When it raises, the call is rejected
  after the commit, and the rows of the attempt stay: here the project row.
\<close>

lemma createProject_key_store_down:
  "fst (createProject store_down_env user_dto demo_world) = Inl KeyStoreError
   \<and> length (projects (committed (snd (createProject store_down_env user_dto demo_world))))
       = Suc (length (projects (committed demo_world)))
   \<and> deleted_keys (snd (createProject store_down_env user_dto demo_world)) = []"
proof -
  obtain x w' where run: "createProject store_down_env user_dto demo_world = (x, w')"
    by (cases "createProject store_down_env user_dto demo_world")
  have down: "fails store_down_env KeyStoreDeleteItem" by (simp add: store_down_env_def)
  obtain e where e: "x = Inl e"
  proof (cases x)
    case (Inr r)
    with run createProject_Inr[of store_down_env user_dto demo_world r w'] down
    show ?thesis by blast
  qed blast
  with run have rej: "createProject store_down_env user_dto demo_world = (Inl e, w')" by simp
  have pre: "orgDAL_findOne store_down_env (actorOrgId user_dto) = Some \<lparr>org_id = ''org1''\<rparr>"
    "getOrgPermission store_down_env (actor user_dto) (actorId user_dto) ''org1''
       (actorAuthMethod user_dto) (actorOrgId user_dto)
     = Inr ([(1, 0), (1, 1), (2, 0)], \<lparr>om_id = 0\<rparr>)"
    "org_can store_down_env [(1, 0), (1, 1), (2, 0)] OrgCreate Workspace"
    "\<not> plan_limit_reached (getPlan store_down_env ''org1'')"
    by (simp_all add: store_down_env_def demo_defs plan_limit_reached_def)
  let ?body = "createProject_tx store_down_env user_dto \<lparr>org_id = ''org1''\<rparr>
         [(1, 0), (1, 1), (2, 0)] \<lparr>om_id = 0\<rparr>
         (createSecretBlindIndex store_down_env (ROOT_ENCRYPTION_KEY store_down_env)
            (ENCRYPTION_KEY store_down_env)) Tx
         (demo_world\<lparr>pending := committed demo_world\<rparr>)"
  from createProject_Inl_cases[OF rej] pre
  consider (inside) w1 where "?body = (Inl e, w1)"
    | (after) r w1 where "e = KeyStoreError" "?body = (Inr r, w1)"
        "w' = w1\<lparr>committed := pending w1\<rparr>"
    by auto
  then have "e = KeyStoreError
      \<and> length (projects (committed w')) = Suc (length (projects (committed demo_world)))
      \<and> deleted_keys w' = []"
  proof cases
    case inside
    from createProject_tx_rejected[OF inside] show ?thesis
      by (auto simp: store_down_env_def demo_defs findUserEncKeyByUserId_q_def)
  next
    case after
    from createProject_tx_resolved[OF after(2)] after(1,3) show ?thesis
      by (simp add: provisioned_def Let_def demo_world_def)
  qed
  with run e show ?thesis by simp
qed

subsection \<open>C10: fixed defaults of a new project\<close>

text \<open>
  Claim C10. Every project created by \<^verbatim>\<open>createProject\<close> has schema version V2,
  version retention limit 10, and exactly the three default environments Development
  (dev), Staging (staging), Production (prod) at positions 1, 2, 3, each with exactly
  one root folder; no input of the request influences these values. The theorem holds
  for every environment and every request; "exactly" is read off the committed tables,
  whose rows so far carry identifiers minted before (\<open>wf_tables\<close>).
\<close>

theorem createProject_defaults:
  assumes run: "createProject E dto w = (Inr r, w')" and wf: "wf_tables (committed w)"
  shows "filter (\<lambda>p. p_id p = r__id r) (projects (committed w')) = [r_project r]
    \<and> p_version (r_project r) = V2
    \<and> p_pitVersionLimit (r_project r) = 10
    \<and> filter (\<lambda>e. e_projectId e = r__id r) (project_environments (committed w')) = r_environments r
    \<and> map (\<lambda>e. (e_name e, e_slug e, e_position e)) (r_environments r)
        = [(''Development'', ''dev'', 1), (''Staging'', ''staging'', 2), (''Production'', ''prod'', 3)]
    \<and> (\<forall>e \<in> set (r_environments r).
          map (\<lambda>f. (f_name f, f_version f))
            (filter (\<lambda>f. f_envId f = e_id e) (secret_folders (committed w')))
          = [(ROOT_FOLDER_NAME E, 1)])"
proof -
  from createProject_resolved[OF run] obtain org perm where
    p: "provisioned E dto org perm (committed w) r (committed w')" by blast
  let ?t = "committed w" and ?n = "next_id (committed w)"
  from wf have old:
    "\<forall>x \<in> set (projects ?t). p_id x < ?n"
    "\<forall>x \<in> set (project_environments ?t). e_projectId x < ?n"
    "\<forall>x \<in> set (secret_folders ?t). f_envId x < ?n"
    by (simp_all add: wf_tables_def)
  have fresh:
    "filter (\<lambda>p. p_id p = Suc ?n) (projects ?t) = []"
    "filter (\<lambda>e. e_projectId e = Suc ?n) (project_environments ?t) = []"
    "filter (\<lambda>f. f_envId f = ?n + 5) (secret_folders ?t) = []"
    "filter (\<lambda>f. f_envId f = ?n + 6) (secret_folders ?t) = []"
    "filter (\<lambda>f. f_envId f = ?n + 7) (secret_folders ?t) = []"
    using old by (simp_all add: filter_minted_before)
  from p fresh show ?thesis
    by (simp add: provisioned_def Let_def new_project_def new_envs_def new_folders_def)
qed

theorem createProject_defaults_witness:
  "wf_tables (committed demo_world)
   \<and> (case createProject demo_env user_dto demo_world of
        (Inl e, w') \<Rightarrow> False
      | (Inr r, w') \<Rightarrow>
          map p_version (filter (\<lambda>p. p_id p = r__id r) (projects (committed w'))) = [V2]
        \<and> map p_pitVersionLimit (filter (\<lambda>p. p_id p = r__id r) (projects (committed w'))) = [10]
        \<and> map e_slug (filter (\<lambda>e. e_projectId e = r__id r) (project_environments (committed w')))
            = [''dev'', ''staging'', ''prod''])"
proof -
  obtain r w' where run: "createProject demo_env user_dto demo_world = (Inr r, w')"
    using demo_user_resolves by blast
  from createProject_defaults[OF run wf_demo]
  have "filter (\<lambda>p. p_id p = r__id r) (projects (committed w')) = [r_project r]"
    "p_version (r_project r) = V2" "p_pitVersionLimit (r_project r) = 10"
    "filter (\<lambda>e. e_projectId e = r__id r) (project_environments (committed w')) = r_environments r"
    "map (\<lambda>e. (e_name e, e_slug e, e_position e)) (r_environments r)
        = [(''Development'', ''dev'', 1), (''Staging'', ''staging'', 2), (''Production'', ''prod'', 3)]"
    by blast+
  moreover from this(5) have "map e_slug (r_environments r) = [''dev'', ''staging'', ''prod'']"
    by (auto simp: map_eq_Cons_conv)
  ultimately show ?thesis using wf_demo by (simp add: run)
qed

lemma resolved_collapse:
  assumes "f = (Inr r, w')"
  shows "\<not> isl (fst f)" "projr (fst f) = r" "snd f = w'"
  using assms by simp_all

subsection \<open>C1: an identity below the organization's Member role\<close>

text \<open>
  Claim C1, as amended. \<^verbatim>\<open>createProject\<close> compares two permissions with
  \<^verbatim>\<open>isAtLeastAsPrivileged(permission, rolePermission)\<close>: \<open>permission\<close> is the acting
  identity's own organization permission, \<open>rolePermission\<close> is what
  \<^verbatim>\<open>getOrgPermissionByRole(OrgMembershipRole.Member, org)\<close> returns. For every call by
  a machine identity whose own permission is not at least as privileged as that of the
  organization's Member role, the call is rejected and nothing is persisted: the
  committed tables (so the projects among them) and the cache log are unchanged. When
  the earlier steps pass (the actor may create workspaces, the plan has room, no
  data-access call raises, the identity is a member of the organization) the error is
  the forbidden-request error of line 297.
\<close>

theorem createProject_identity_below_member:
  assumes ident: "actor dto = IDENTITY"
    and org: "orgDAL_findOne E (actorOrgId dto) = Some org"
    and perm: "getOrgPermission E (actor dto) (actorId dto) (org_id org) (actorAuthMethod dto)
                 (actorOrgId dto) = Inr (perm, om)"
    and role: "getOrgPermissionByRole E OrgMember (org_id org) = Inr (rolePermission, customRole)"
    and weaker: "\<not> isAtLeastAsPrivileged E perm rolePermission"
  shows "\<exists>e w'. createProject E dto w = (Inl e, w')
      \<and> committed w' = committed w \<and> deleted_keys w' = deleted_keys w
      \<and> (org_can E perm OrgCreate Workspace
          \<and> \<not> plan_limit_reached (getPlan E (org_id org))
          \<and> (\<forall>c. \<not> fails E c)
          \<and> findIdentityOrgMembership_q (actorId dto) (org_id org) (committed w) \<noteq> None
          \<longrightarrow> e = ForbiddenRequestError
                    ''Failed to add identity to project with more privileged role'')"
proof -
  obtain x w' where run: "createProject E dto w = (x, w')" by (cases "createProject E dto w")
  show ?thesis
  proof (cases x)
    case (Inr r)
    with run have "createProject E dto w = (Inr r, w')" by simp
    from createProject_resolved[OF this] org perm ident role weaker show ?thesis
      by (auto simp: provisioned_def Let_def)
  next
    case (Inl e)
    with run have rej: "createProject E dto w = (Inl e, w')" by simp
    have "e = ForbiddenRequestError ''Failed to add identity to project with more privileged role''"
      if can: "org_can E perm OrgCreate Workspace"
        and plan: "\<not> plan_limit_reached (getPlan E (org_id org))"
        and nf: "\<forall>c. \<not> fails E c"
        and mem: "findIdentityOrgMembership_q (actorId dto) (org_id org) (committed w) \<noteq> None"
    proof -
      from createProject_Inl_cases[OF rej] org perm can plan nf
      obtain w1 where "createProject_tx E dto org perm om
            (createSecretBlindIndex E (ROOT_ENCRYPTION_KEY E) (ENCRYPTION_KEY E)) Tx
            (w\<lparr>pending := committed w\<rparr>) = (Inl e, w1)"
        by auto
      from createProject_tx_rejected[OF this] nf ident role mem show ?thesis by auto
    qed
    moreover from createProject_Inl[OF rej] org perm ident role weaker
    have "committed w' = committed w \<and> deleted_keys w' = deleted_keys w"
      by (auto simp: provisioned_def Let_def)
    ultimately show ?thesis using rej by blast
  qed
qed

theorem createProject_identity_below_member_witness:
  "actor identity_dto = IDENTITY
   \<and> \<not> isAtLeastAsPrivileged member_heavy_env [(1, 0), (1, 1), (2, 0)] [(1, 0), (9, 9)]
   \<and> fst (createProject member_heavy_env identity_dto demo_world)
       = Inl (ForbiddenRequestError ''Failed to add identity to project with more privileged role'')
   \<and> committed (snd (createProject member_heavy_env identity_dto demo_world)) = committed demo_world"
proof -
  have h: "actor identity_dto = IDENTITY"
    "orgDAL_findOne member_heavy_env (actorOrgId identity_dto) = Some \<lparr>org_id = ''org1''\<rparr>"
    "getOrgPermission member_heavy_env (actor identity_dto) (actorId identity_dto)
       (org_id \<lparr>org_id = ''org1''\<rparr>) (actorAuthMethod identity_dto) (actorOrgId identity_dto)
     = Inr ([(1, 0), (1, 1), (2, 0)], \<lparr>om_id = 0\<rparr>)"
    "getOrgPermissionByRole member_heavy_env OrgMember (org_id \<lparr>org_id = ''org1''\<rparr>)
     = Inr ([(1, 0), (9, 9)], None)"
    "\<not> isAtLeastAsPrivileged member_heavy_env [(1, 0), (1, 1), (2, 0)] [(1, 0), (9, 9)]"
    by (simp_all add: member_heavy_env_def demo_defs)
  have pre: "org_can member_heavy_env [(1, 0), (1, 1), (2, 0)] OrgCreate Workspace
      \<and> \<not> plan_limit_reached (getPlan member_heavy_env (org_id \<lparr>org_id = ''org1''\<rparr>))
      \<and> (\<forall>c. \<not> fails member_heavy_env c)
      \<and> findIdentityOrgMembership_q (actorId identity_dto) (org_id \<lparr>org_id = ''org1''\<rparr>)
            (committed demo_world) \<noteq> None"
    by (simp add: member_heavy_env_def demo_defs plan_limit_reached_def findIdentityOrgMembership_q_def)
  from createProject_identity_below_member[OF h, where w = demo_world] pre
  obtain e w' where "createProject member_heavy_env identity_dto demo_world = (Inl e, w')"
    "committed w' = committed demo_world"
    "e = ForbiddenRequestError ''Failed to add identity to project with more privileged role''"
    by blast
  with h(1,5) show ?thesis by simp
qed

text \<open>
  Claim C1 as stated fails. The spec calls the permission computed at line 289 "the
  identity's effective organization permission" and \<open>permission\<close> "the actor's own
  (creator's) permission". Here the former, \<open>[(1, 0)]\<close>, is strictly weaker than the
  latter, \<open>[(1, 0), (1, 1), (2, 0)]\<close>, as \<open>isAtLeastAsPrivileged\<close> decides it, the actor
  is an identity, and the call resolves with the project row persisted.
\<close>

theorem createProject_identity_weaker_role_counterexample:
  "actor identity_dto = IDENTITY
   \<and> getOrgPermission demo_env IDENTITY 7 ''org1'' None (Some ''org1'')
       = Inr ([(1, 0), (1, 1), (2, 0)], \<lparr>om_id = 0\<rparr>)
   \<and> getOrgPermissionByRole demo_env OrgMember ''org1'' = Inr ([(1, 0)], None)
   \<and> isAtLeastAsPrivileged demo_env [(1, 0), (1, 1), (2, 0)] [(1, 0)]
   \<and> \<not> isAtLeastAsPrivileged demo_env [(1, 0)] [(1, 0), (1, 1), (2, 0)]
   \<and> \<not> isl (fst (createProject demo_env identity_dto demo_world))
   \<and> r_project (projr (fst (createProject demo_env identity_dto demo_world)))
       \<in> set (projects (committed (snd (createProject demo_env identity_dto demo_world))))"
proof -
  obtain r w' where run: "createProject demo_env identity_dto demo_world = (Inr r, w')"
    using demo_identity_resolves by blast
  from createProject_resolved[OF run] obtain org perm where
    "provisioned demo_env identity_dto org perm (committed demo_world) r (committed w')"
    by blast
  then have "r_project r \<in> set (projects (committed w'))"
    by (simp add: provisioned_def Let_def)
  moreover have "actor identity_dto = IDENTITY"
    "getOrgPermission demo_env IDENTITY 7 ''org1'' None (Some ''org1'')
       = Inr ([(1, 0), (1, 1), (2, 0)], \<lparr>om_id = 0\<rparr>)"
    "getOrgPermissionByRole demo_env OrgMember ''org1'' = Inr ([(1, 0)], None)"
    "isAtLeastAsPrivileged demo_env [(1, 0), (1, 1), (2, 0)] [(1, 0)]"
    "\<not> isAtLeastAsPrivileged demo_env [(1, 0)] [(1, 0), (1, 1), (2, 0)]"
    by (simp_all add: demo_defs)
  ultimately show ?thesis
    using resolved_collapse[OF run] by simp
qed

subsection \<open>C2: the plan limit is checked before the transaction\<close>

text \<open>
  Claim C2. For every \<^verbatim>\<open>createProject\<close> call in an organization whose plan reports a
  workspace limit and \<open>workspacesUsed \<ge> workspaceLimit\<close>, the call is rejected and the
  world is exactly the one before the call: the transaction was never opened, no row
  was written, nothing else changed. The error is the plan-limit error whenever the
  authorization check, which the code runs first, has passed.
\<close>

theorem createProject_plan_limit:
  assumes org: "orgDAL_findOne E (actorOrgId dto) = Some org"
    and limit: "workspaceLimit (getPlan E (org_id org)) = Some limit"
    and used: "limit \<le> workspacesUsed (getPlan E (org_id org))"
  shows "(\<exists>e. createProject E dto w = (Inl e, w))
    \<and> (\<forall>perm om.
          getOrgPermission E (actor dto) (actorId dto) (org_id org) (actorAuthMethod dto)
            (actorOrgId dto) = Inr (perm, om)
          \<and> org_can E perm OrgCreate Workspace \<longrightarrow>
          createProject E dto w =
            (Inl (BadRequestError
               ''Failed to create workspace due to plan limit reached. Upgrade plan to add more workspaces.''),
             w))"
  using assms
  by (auto simp: createProject_def throw_def Let_def split: sum.splits)

theorem createProject_plan_limit_witness:
  "orgDAL_findOne at_limit_env (actorOrgId user_dto) = Some \<lparr>org_id = ''org1''\<rparr>
   \<and> workspaceLimit (getPlan at_limit_env ''org1'') = Some 1
   \<and> 1 \<le> workspacesUsed (getPlan at_limit_env ''org1'')
   \<and> createProject at_limit_env user_dto demo_world =
        (Inl (BadRequestError
           ''Failed to create workspace due to plan limit reached. Upgrade plan to add more workspaces.''),
         demo_world)"
proof -
  have h: "orgDAL_findOne at_limit_env (actorOrgId user_dto) = Some \<lparr>org_id = ''org1''\<rparr>"
    "workspaceLimit (getPlan at_limit_env (org_id \<lparr>org_id = ''org1''\<rparr>)) = Some 1"
    "1 \<le> workspacesUsed (getPlan at_limit_env (org_id \<lparr>org_id = ''org1''\<rparr>))"
    by (simp_all add: at_limit_env_def demo_defs)
  have p: "getOrgPermission at_limit_env (actor user_dto) (actorId user_dto)
             (org_id \<lparr>org_id = ''org1''\<rparr>) (actorAuthMethod user_dto) (actorOrgId user_dto)
           = Inr ([(1, 0), (1, 1), (2, 0)], \<lparr>om_id = 0\<rparr>)
         \<and> org_can at_limit_env [(1, 0), (1, 1), (2, 0)] OrgCreate Workspace"
    by (simp add: at_limit_env_def demo_defs)
  from createProject_plan_limit[OF h, where w = demo_world] p h show ?thesis by simp
qed

subsection \<open>C4: one custodian, one bot, one grant for the custodian\<close>

text \<open>
  Claim C4. Every successful \<^verbatim>\<open>createProject\<close> adds exactly one user row, a ghost
  user, which is a member of the new project; afterwards the new project has exactly
  one bot row and exactly one key grant whose receiver is the ghost user; and its key
  grants are exactly two when the actor is a human user (the custodian's, then the
  actor's), and the custodian's alone otherwise.
\<close>

theorem createProject_custody:
  assumes run: "createProject E dto w = (Inr r, w')" and wf: "wf_tables (committed w)"
  shows "\<exists>g. users (committed w') = users (committed w) @ [g] \<and> u_isGhost g
    \<and> (\<exists>m \<in> set (project_memberships (committed w')).
          pm_userId m = u_id g \<and> pm_projectId m = r__id r)
    \<and> length (filter (\<lambda>b. b_projectId b = r__id r) (project_bots (committed w'))) = 1
    \<and> length (filter (\<lambda>k. k_projectId k = r__id r \<and> k_receiverId k = u_id g)
                 (project_keys (committed w'))) = 1
    \<and> map k_receiverId (filter (\<lambda>k. k_projectId k = r__id r) (project_keys (committed w')))
        = (if actor dto = USER then [u_id g, actorId dto] else [u_id g])"
proof -
  from createProject_resolved[OF run] obtain org perm where
    p: "provisioned E dto org perm (committed w) r (committed w')"
    and u: "actor dto = USER \<longrightarrow> findUserEncKeyByUserId_q (actorId dto) (committed w) \<noteq> None"
    by blast
  let ?t = "committed w" and ?n = "next_id (committed w)"
  from wf have old:
    "\<forall>x \<in> set (users ?t). u_id x < ?n"
    "\<forall>x \<in> set (project_keys ?t). k_projectId x < ?n"
    "\<forall>x \<in> set (project_bots ?t). b_projectId x < ?n"
    by (simp_all add: wf_tables_def)
  have fresh:
    "filter (\<lambda>b. b_projectId b = Suc ?n) (project_bots ?t) = []"
    "filter (\<lambda>k. k_projectId k = Suc ?n) (project_keys ?t) = []"
    using old by (simp_all add: filter_minted_before)
  then have fresh2: "filter (\<lambda>k. k_projectId k = Suc ?n \<and> k_receiverId k = ?n) (project_keys ?t) = []"
    by (auto simp: filter_empty_conv)
  have actor: "actor dto = USER \<Longrightarrow> actorId dto \<noteq> ?n"
  proof -
    assume "actor dto = USER"
    with u obtain x where "findUserEncKeyByUserId_q (actorId dto) ?t = Some x" by auto
    from findUserEncKey_Some[OF this] old(1) show ?thesis by auto
  qed
  from p fresh fresh2 actor show ?thesis
    by (auto simp: provisioned_def Let_def ghost_row_def)
qed

theorem createProject_custody_witness:
  "wf_tables (committed demo_world)
   \<and> \<not> isl (fst (createProject demo_env user_dto demo_world))
   \<and> length (users (committed (snd (createProject demo_env user_dto demo_world))))
       = Suc (length (users (committed demo_world)))
   \<and> length (filter
         (\<lambda>b. b_projectId b = r__id (projr (fst (createProject demo_env user_dto demo_world))))
         (project_bots (committed (snd (createProject demo_env user_dto demo_world))))) = 1
   \<and> length (filter
         (\<lambda>k. k_projectId k = r__id (projr (fst (createProject demo_env user_dto demo_world))))
         (project_keys (committed (snd (createProject demo_env user_dto demo_world))))) = 2"
proof -
  obtain r w' where run: "createProject demo_env user_dto demo_world = (Inr r, w')"
    using demo_user_resolves by blast
  from createProject_custody[OF run wf_demo] obtain g where
    "users (committed w') = users (committed demo_world) @ [g]"
    "length (filter (\<lambda>b. b_projectId b = r__id r) (project_bots (committed w'))) = 1"
    "map k_receiverId (filter (\<lambda>k. k_projectId k = r__id r) (project_keys (committed w')))
        = (if actor user_dto = USER then [u_id g, actorId user_dto] else [u_id g])"
    by blast
  moreover from this(3)
  have "length (filter (\<lambda>k. k_projectId k = r__id r) (project_keys (committed w'))) = 2"
    by (auto simp: user_dto_def dest: arg_cong[where f = length])
  ultimately show ?thesis using wf_demo resolved_collapse[OF run] by simp
qed

subsection \<open>C5: the slug of a new project\<close>

text \<open>
  Claim C5, as amended. The slug of the created project is the slugified form of
  \<^verbatim>\<open>`${workspaceName}-${alphaNumericNanoId(4)}`\<close> when no slug is supplied or the
  supplied slug is the empty string; a supplied non-empty slug is used unchanged.
\<close>

theorem createProject_slug:
  assumes "createProject E dto w = (Inr r, w')"
  shows "r_project r \<in> set (projects (committed w'))
    \<and> p_slug (r_project r) =
        (case slug dto of
           None \<Rightarrow> slugify E (workspaceName dto @ ''-'' @ alphaNumericNanoId E 4)
         | Some s \<Rightarrow>
             if s = [] then slugify E (workspaceName dto @ ''-'' @ alphaNumericNanoId E 4) else s)"
proof -
  from createProject_resolved[OF assms] obtain org perm where
    "provisioned E dto org perm (committed w) r (committed w')" by blast
  then show ?thesis
    by (auto simp: provisioned_def Let_def new_project_def or_else_def split: option.splits)
qed

theorem createProject_slug_witness:
  "\<not> isl (fst (createProject demo_env user_dto demo_world))
   \<and> p_slug (r_project (projr (fst (createProject demo_env user_dto demo_world)))) = ''acme-xxxx''"
proof -
  obtain r w' where run: "createProject demo_env user_dto demo_world = (Inr r, w')"
    using demo_user_resolves by blast
  from createProject_slug[OF run]
  have "p_slug (r_project r) = ''acme-xxxx''"
    by (simp add: demo_defs numeral_eq_Suc)
  then show ?thesis using resolved_collapse[OF run] by simp
qed

lemma empty_slug_resolves:
  "\<exists>r w'. createProject demo_env empty_slug_dto demo_world = (Inr r, w')"
  by (rule createProject_resolves[where org = "\<lparr>org_id = ''org1''\<rparr>"
        and perm = "[(1, 0), (1, 1), (2, 0)]" and om = "\<lparr>om_id = 0\<rparr>"])
     (simp_all add: demo_defs empty_slug_dto_def plan_limit_reached_def findUserEncKeyByUserId_q_def)

text \<open>
  Claim C5 as stated ("when a slug is supplied it is used unchanged") fails for the
  supplied slug \<^verbatim>\<open>""\<close>: \<^verbatim>\<open>projectSlug || slugify(...)\<close> takes the empty string as
  absent, and the project gets a generated slug.
\<close>

theorem createProject_supplied_slug_counterexample:
  "slug empty_slug_dto = Some []
   \<and> \<not> isl (fst (createProject demo_env empty_slug_dto demo_world))
   \<and> p_slug (r_project (projr (fst (createProject demo_env empty_slug_dto demo_world))))
       = ''acme-xxxx''"
proof -
  obtain r w' where run: "createProject demo_env empty_slug_dto demo_world = (Inr r, w')"
    using empty_slug_resolves by blast
  from createProject_resolved[OF run] obtain org perm where
    p: "provisioned demo_env empty_slug_dto org perm (committed demo_world) r (committed w')"
    by blast
  from p have "p_slug (r_project r) = ''acme-xxxx''"
    by (simp add: provisioned_def Let_def new_project_def or_else_def empty_slug_dto_def demo_defs
        numeral_eq_Suc)
  moreover have "slug empty_slug_dto = Some []" by (simp add: empty_slug_dto_def)
  ultimately show ?thesis using resolved_collapse[OF run] by simp
qed

subsection \<open>C6: the project role of an identity\<close>

text \<open>
  Claim C6, as amended. For every successful \<^verbatim>\<open>createProject\<close> by a machine identity,
  exactly one identity membership and one role row for it are added; the role is
  Custom, with that role's id as \<open>customRoleId\<close>, if the lookup
  \<^verbatim>\<open>getOrgPermissionByRole(OrgMembershipRole.Member, org)\<close> returns a custom role, and
  Admin with no \<open>customRoleId\<close> otherwise. The identity's own organization role is
  not consulted.
\<close>

theorem createProject_identity_role:
  assumes run: "createProject E dto w = (Inr r, w')" and ident: "actor dto = IDENTITY"
  shows "\<exists>org rolePermission customRole m a.
      orgDAL_findOne E (actorOrgId dto) = Some org
    \<and> getOrgPermissionByRole E OrgMember (org_id org) = Inr (rolePermission, customRole)
    \<and> identity_project_memberships (committed w')
        = identity_project_memberships (committed w) @ [m]
    \<and> im_identityId m = actorId dto \<and> im_projectId m = r__id r
    \<and> identity_project_membership_roles (committed w')
        = identity_project_membership_roles (committed w) @ [a]
    \<and> pr_projectMembershipId a = im_id m
    \<and> pr_role a = (if customRole = None then Admin else Custom)
    \<and> pr_customRoleId a = map_option cr_id customRole"
proof -
  from createProject_resolved[OF run] obtain org perm where
    o: "orgDAL_findOne E (actorOrgId dto) = Some org"
    and p: "provisioned E dto org perm (committed w) r (committed w')"
    by blast
  from p ident obtain rp cr where
    "getOrgPermissionByRole E OrgMember (org_id org) = Inr (rp, cr)"
    by (cases "getOrgPermissionByRole E OrgMember (org_id org)")
       (auto simp: provisioned_def Let_def)
  with o p ident show ?thesis
    by (auto simp: provisioned_def Let_def)
qed

theorem createProject_identity_role_witness:
  "actor identity_dto = IDENTITY
   \<and> \<not> isl (fst (createProject demo_env identity_dto demo_world))
   \<and> map pr_role (identity_project_membership_roles
        (committed (snd (createProject demo_env identity_dto demo_world)))) = [Admin]"
proof -
  obtain r w' where run: "createProject demo_env identity_dto demo_world = (Inr r, w')"
    using demo_identity_resolves by blast
  have i: "actor identity_dto = IDENTITY" by (simp add: demo_defs)
  from createProject_identity_role[OF run i] obtain org rp cr a where
    "orgDAL_findOne demo_env (actorOrgId identity_dto) = Some org"
    "getOrgPermissionByRole demo_env OrgMember (org_id org) = Inr (rp, cr)"
    "identity_project_membership_roles (committed w')
        = identity_project_membership_roles (committed demo_world) @ [a]"
    "pr_role a = (if cr = None then Admin else Custom)"
    by blast
  then have "map pr_role (identity_project_membership_roles (committed w')) = [Admin]"
    by (auto simp: demo_defs)
  with i show ?thesis using resolved_collapse[OF run] by simp
qed

text \<open>
  Claim C6 as stated fails: the identity's organization membership has the Custom role,
  the role lookup for that role returns a custom role, and the persisted project role
  is Admin with no \<open>customRoleId\<close>.
\<close>

theorem createProject_identity_custom_role_counterexample:
  "actor identity_dto = IDENTITY
   \<and> map iom_role (filter (\<lambda>m. iom_identityId m = actorId identity_dto \<and> iom_orgId m = ''org1'')
        (identity_org_memberships (committed demo_world))) = [OrgCustom]
   \<and> getOrgPermissionByRole demo_env OrgCustom ''org1'' = Inr ([(1, 0)], Some \<lparr>cr_id = 6\<rparr>)
   \<and> \<not> isl (fst (createProject demo_env identity_dto demo_world))
   \<and> map pr_role (identity_project_membership_roles
        (committed (snd (createProject demo_env identity_dto demo_world)))) = [Admin]
   \<and> map pr_customRoleId (identity_project_membership_roles
        (committed (snd (createProject demo_env identity_dto demo_world)))) = [None]"
proof -
  obtain r w' where run: "createProject demo_env identity_dto demo_world = (Inr r, w')"
    using demo_identity_resolves by blast
  from createProject_resolved[OF run] obtain org perm where
    o: "orgDAL_findOne demo_env (actorOrgId identity_dto) = Some org"
    and p: "provisioned demo_env identity_dto org perm (committed demo_world) r (committed w')"
    by blast
  from p have "map pr_role (identity_project_membership_roles (committed w')) = [Admin]"
    "map pr_customRoleId (identity_project_membership_roles (committed w')) = [None]"
    by (simp_all add: provisioned_def Let_def demo_defs)
  moreover have "actor identity_dto = IDENTITY"
    "map iom_role (filter (\<lambda>m. iom_identityId m = actorId identity_dto \<and> iom_orgId m = ''org1'')
        (identity_org_memberships (committed demo_world))) = [OrgCustom]"
    "getOrgPermissionByRole demo_env OrgCustom ''org1'' = Inr ([(1, 0)], Some \<lparr>cr_id = 6\<rparr>)"
    by (simp_all add: demo_defs)
  ultimately show ?thesis using resolved_collapse[OF run] by simp
qed

subsection \<open>C9: a human actor\<close>

text \<open>
  Claim C9. For every \<^verbatim>\<open>createProject\<close> by a human actor: if the actor has no
  registered public key the call is rejected and the committed tables and the cache
  log are as before; on success the actor has a membership of the new project with
  the Admin role and a key grant for the project whose sender is the ghost user, who
  is a member of the project too. (That the role handed to
  \<^verbatim>\<open>assignWorkspaceKeysToMembers\<close> comes back unchanged is modelled from the spec.)
\<close>

theorem createProject_human_actor:
  assumes "actor dto = USER"
  shows "(findUserEncKeyByUserId_q (actorId dto) (committed w) = None \<longrightarrow>
            (\<exists>e w'. createProject E dto w = (Inl e, w')
                \<and> committed w' = committed w \<and> deleted_keys w' = deleted_keys w))
       \<and> (\<forall>r w'. createProject E dto w = (Inr r, w') \<longrightarrow>
            (\<exists>g \<in> set (users (committed w')). u_isGhost g
              \<and> (\<exists>m \<in> set (project_memberships (committed w')).
                    pm_userId m = actorId dto \<and> pm_projectId m = r__id r
                  \<and> (\<exists>a \<in> set (project_user_membership_roles (committed w')).
                        pr_projectMembershipId a = pm_id m \<and> pr_role a = Admin))
              \<and> (\<exists>k \<in> set (project_keys (committed w')).
                    k_projectId k = r__id r \<and> k_receiverId k = actorId dto
                  \<and> k_senderId k = u_id g)
              \<and> (\<exists>m \<in> set (project_memberships (committed w')).
                    pm_userId m = u_id g \<and> pm_projectId m = r__id r)))"
proof (intro conjI impI allI)
  assume none: "findUserEncKeyByUserId_q (actorId dto) (committed w) = None"
  obtain x w' where run: "createProject E dto w = (x, w')" by (cases "createProject E dto w")
  show "\<exists>e w'. createProject E dto w = (Inl e, w')
          \<and> committed w' = committed w \<and> deleted_keys w' = deleted_keys w"
  proof (cases x)
    case (Inr r)
    with run createProject_resolved[of E dto w r w'] assms none show ?thesis by auto
  next
    case (Inl e)
    with run createProject_Inl[of E dto w e w'] assms none show ?thesis by auto
  qed
next
  fix r w'
  assume run: "createProject E dto w = (Inr r, w')"
  from createProject_resolved[OF run] obtain org perm where
    p: "provisioned E dto org perm (committed w) r (committed w')" by blast
  let ?g = "ghost_row E org (next_id (committed w))"
  from p assms have "?g \<in> set (users (committed w'))" "u_isGhost ?g"
    by (auto simp: provisioned_def Let_def ghost_row_def)
  moreover from p assms have
    "\<exists>m \<in> set (project_memberships (committed w')).
        pm_userId m = actorId dto \<and> pm_projectId m = r__id r
      \<and> (\<exists>a \<in> set (project_user_membership_roles (committed w')).
            pr_projectMembershipId a = pm_id m \<and> pr_role a = Admin)"
    by (auto simp: provisioned_def Let_def)
  moreover from p assms have
    "\<exists>k \<in> set (project_keys (committed w')).
        k_projectId k = r__id r \<and> k_receiverId k = actorId dto \<and> k_senderId k = u_id ?g"
    by (auto simp: provisioned_def Let_def ghost_row_def)
  moreover from p assms have
    "\<exists>m \<in> set (project_memberships (committed w')).
        pm_userId m = u_id ?g \<and> pm_projectId m = r__id r"
    by (auto simp: provisioned_def Let_def ghost_row_def)
  ultimately show "\<exists>g \<in> set (users (committed w')). u_isGhost g
              \<and> (\<exists>m \<in> set (project_memberships (committed w')).
                    pm_userId m = actorId dto \<and> pm_projectId m = r__id r
                  \<and> (\<exists>a \<in> set (project_user_membership_roles (committed w')).
                        pr_projectMembershipId a = pm_id m \<and> pr_role a = Admin))
              \<and> (\<exists>k \<in> set (project_keys (committed w')).
                    k_projectId k = r__id r \<and> k_receiverId k = actorId dto
                  \<and> k_senderId k = u_id g)
              \<and> (\<exists>m \<in> set (project_memberships (committed w')).
                    pm_userId m = u_id g \<and> pm_projectId m = r__id r)"
    by blast
qed

theorem createProject_human_actor_witness:
  "actor keyless_dto = USER
   \<and> findUserEncKeyByUserId_q (actorId keyless_dto) (committed demo_world) = None
   \<and> isl (fst (createProject demo_env keyless_dto demo_world))
   \<and> committed (snd (createProject demo_env keyless_dto demo_world)) = committed demo_world
   \<and> actor user_dto = USER
   \<and> \<not> isl (fst (createProject demo_env user_dto demo_world))
   \<and> actorId user_dto \<in> pm_userId `
        set (project_memberships (committed (snd (createProject demo_env user_dto demo_world))))
   \<and> actorId user_dto \<in> k_receiverId `
        set (project_keys (committed (snd (createProject demo_env user_dto demo_world))))"
proof -
  have k: "actor keyless_dto = USER"
    "findUserEncKeyByUserId_q (actorId keyless_dto) (committed demo_world) = None"
    by (simp_all add: keyless_dto_def demo_defs findUserEncKeyByUserId_q_def)
  from createProject_human_actor[OF k(1), where w = demo_world and E = demo_env] k(2)
  obtain e w' where "createProject demo_env keyless_dto demo_world = (Inl e, w')"
    "committed w' = committed demo_world"
    by blast
  then have a: "isl (fst (createProject demo_env keyless_dto demo_world))"
    "committed (snd (createProject demo_env keyless_dto demo_world)) = committed demo_world"
    by simp_all
  have u: "actor user_dto = USER" by (simp add: demo_defs)
  obtain r w2 where run: "createProject demo_env user_dto demo_world = (Inr r, w2)"
    using demo_user_resolves by blast
  from createProject_human_actor[OF u, where w = demo_world and E = demo_env] run
  obtain m k where "m \<in> set (project_memberships (committed w2))" "pm_userId m = actorId user_dto"
    "k \<in> set (project_keys (committed w2))" "k_receiverId k = actorId user_dto"
    by blast
  then have "actorId user_dto \<in> pm_userId ` set (project_memberships (committed w2))"
    "actorId user_dto \<in> k_receiverId ` set (project_keys (committed w2))"
    by force+
  with k a u show ?thesis using resolved_collapse[OF run] by simp
qed

subsection \<open>C7: the version limit is gated on the Admin role\<close>

lemmas update_defs = updateVersionLimit_def await_def dal_def run_dal_def query_def throw_def
  findProjectBySlug_q_def updateById_project_def

text \<open>
  Claim C7, as amended. \<^verbatim>\<open>updateVersionLimit\<close> finds the project by slug, resolves
  the caller's project permission and takes from it only \<open>hasRole\<close>: the Admin role is
  the one gate, and no capability (action on subject) is tested. For every caller
  without the Admin role the call is rejected and the world, so the retention limit,
  is as before; for every caller with the Admin role, whatever its permission allows,
  the call resolves when no data-access call raises, and the limit of the project is
  the requested one.
\<close>

theorem updateVersionLimit_admin_gate:
  assumes found: "findProjectBySlug_q (workspaceSlug dto) (actorOrgId dto) (committed w) = Some prj"
    and perm: "getProjectPermission E (actor dto) (actorId dto) (p_id prj) (actorAuthMethod dto)
                 (actorOrgId dto) = Inr (permission, hasRole)"
  shows "(\<not> hasRole Admin \<longrightarrow>
            (\<exists>e. updateVersionLimit E dto w = (Inl e, w))
          \<and> (\<not> fails E FindProjectBySlug \<longrightarrow>
               updateVersionLimit E dto w =
                 (Inl (BadRequestError ''Only admins are allowed to take this action''), w)))
       \<and> (hasRole Admin \<and> \<not> fails E FindProjectBySlug \<and> \<not> fails E ProjectUpdateById \<longrightarrow>
            (\<exists>r w'. updateVersionLimit E dto w = (Inr r, w')
               \<and> map p_id (projects (committed w')) = map p_id (projects (committed w))
               \<and> (\<forall>p \<in> set (projects (committed w')).
                     p_id p = p_id prj \<longrightarrow> p_pitVersionLimit p = pitVersionLimit dto)))"
  using assms
  by (auto simp: update_defs split: option.splits)

theorem updateVersionLimit_admin_gate_witness:
  "findProjectBySlug_q (workspaceSlug limit_dto) (actorOrgId limit_dto) (committed acme_world)
     = Some \<lparr>p_id = 3, p_name = ''Acme'', p_orgId = ''org1'', p_slug = ''acme'', p_version = V2,
             p_pitVersionLimit = 10\<rparr>
   \<and> updateVersionLimit member_env limit_dto acme_world
       = (Inl (BadRequestError ''Only admins are allowed to take this action''), acme_world)
   \<and> \<not> isl (fst (updateVersionLimit demo_env limit_dto acme_world))"
proof -
  let ?prj = "\<lparr>p_id = 3, p_name = ''Acme'', p_orgId = ''org1'', p_slug = ''acme'', p_version = V2,
             p_pitVersionLimit = 10\<rparr>"
  have f: "findProjectBySlug_q (workspaceSlug limit_dto) (actorOrgId limit_dto) (committed acme_world)
     = Some ?prj"
    by (simp add: findProjectBySlug_q_def limit_dto_def acme_world_def acme_tables_def demo_tables_def)
  have m: "getProjectPermission member_env (actor limit_dto) (actorId limit_dto) (p_id ?prj)
             (actorAuthMethod limit_dto) (actorOrgId limit_dto) = Inr ([], (\<lambda>r. r = Member))"
    by (simp add: member_env_def demo_env_def)
  have a: "getProjectPermission demo_env (actor limit_dto) (actorId limit_dto) (p_id ?prj)
             (actorAuthMethod limit_dto) (actorOrgId limit_dto) = Inr ([], (\<lambda>r. r = Admin))"
    by (simp add: demo_env_def)
  have nf: "\<not> fails member_env FindProjectBySlug" "\<not> fails demo_env FindProjectBySlug"
    "\<not> fails demo_env ProjectUpdateById"
    by (simp_all add: member_env_def demo_env_def)
  from updateVersionLimit_admin_gate[OF f m] nf
  have 1: "updateVersionLimit member_env limit_dto acme_world
       = (Inl (BadRequestError ''Only admins are allowed to take this action''), acme_world)"
    by simp
  from updateVersionLimit_admin_gate[OF f a] nf
  obtain r w' where "updateVersionLimit demo_env limit_dto acme_world = (Inr r, w')"
    by auto
  then have 2: "\<not> isl (fst (updateVersionLimit demo_env limit_dto acme_world))" by simp
  from f 1 2 show ?thesis by simp
qed

text \<open>
  Claim C7 as stated ("performs a capability authorization check and, as a second gate
  beyond it, requires the Admin role") fails: the caller's permission allows no action
  on any subject, the caller has the Admin role, and the limit is patched to 42.
\<close>

theorem updateVersionLimit_capability_counterexample:
  "getProjectPermission demo_env (actor limit_dto) (actorId limit_dto) 3
     (actorAuthMethod limit_dto) (actorOrgId limit_dto) = Inr ([], (\<lambda>r. r = Admin))
   \<and> \<not> project_can demo_env [] ProjRead Project \<and> \<not> project_can demo_env [] ProjRead Settings
   \<and> \<not> project_can demo_env [] ProjRead Secrets
   \<and> \<not> project_can demo_env [] ProjCreate Project \<and> \<not> project_can demo_env [] ProjCreate Settings
   \<and> \<not> project_can demo_env [] ProjCreate Secrets
   \<and> \<not> project_can demo_env [] ProjEdit Project \<and> \<not> project_can demo_env [] ProjEdit Settings
   \<and> \<not> project_can demo_env [] ProjEdit Secrets
   \<and> \<not> project_can demo_env [] ProjDelete Project \<and> \<not> project_can demo_env [] ProjDelete Settings
   \<and> \<not> project_can demo_env [] ProjDelete Secrets
   \<and> \<not> isl (fst (updateVersionLimit demo_env limit_dto acme_world))
   \<and> map p_pitVersionLimit (projects (committed (snd (updateVersionLimit demo_env limit_dto acme_world))))
       = [42]"
  by (simp add: update_defs demo_env_def limit_dto_def acme_world_def acme_tables_def demo_tables_def)

subsection \<open>C8: the plan cache entry\<close>

lemma deleteProject_resolved:
  assumes "deleteProject E dto w = (Inr d, w')"
  shows "deleted_keys w' = deleted_keys w @ [cache_key (actorOrgId dto)]"
proof -
  from assms obtain project w1 where
    t: "deleteProject_tx E project Tx (w\<lparr>pending := committed w\<rparr>) = (Inr d, w1)"
    and w': "w' = w1\<lparr>committed := pending w1,
                      deleted_keys := deleted_keys w1 @ [cache_key (actorOrgId dto)]\<rparr>"
    unfolding deleteProject_def
    by (auto simp: resolved transaction_Inr keyStore_deleteItem_Inr query_def cache_key_def
        split: option.splits sum.splits prod.splits if_splits)
  from pending_only_deleteProject_tx[of E project] t
  have "deleted_keys w1 = deleted_keys w"
    unfolding pending_only_def by fastforce
  with w' show ?thesis by simp
qed

lemma deleteProject_tx_rolled_back:
  "transaction (deleteProject_tx E p) w = (Inl e, w') \<Longrightarrow>
     committed w' = committed w \<and> deleted_keys w' = deleted_keys w"
  by (rule transaction_rejected[where body = "deleteProject_tx E p"])
     (rule pending_only_deleteProject_tx)

lemma deleteProject_rejected:
  assumes "deleteProject E dto w = (Inl e, w')"
  shows "deleted_keys w' = deleted_keys w"
proof -
  have tx: "deleted_keys w1 = deleted_keys w0"
    if "transaction (deleteProject_tx E p) w0 = (x, w1)" for p w0 x w1
  proof (cases x)
    case (Inl e')
    with that deleteProject_tx_rolled_back[of E p w0 e' w1] show ?thesis by simp
  next
    case (Inr d)
    with that obtain w2 where
      "deleteProject_tx E p Tx (w0\<lparr>pending := committed w0\<rparr>) = (Inr d, w2)"
      "w1 = w2\<lparr>committed := pending w2\<rparr>"
      by (auto simp: transaction_Inr)
    with pending_only_deleteProject_tx[of E p] show ?thesis
      unfolding pending_only_def by fastforce
  qed
  from assms show ?thesis
    unfolding deleteProject_def
    by (auto simp: rejected resolved keyStore_deleteItem_Inl query_def
        split: option.splits sum.splits prod.splits if_splits
        dest!: tx)
qed

lemmas delete_defs = deleteProject_def deleteProject_tx_def await_def dal_def run_dal_def query_def
  throw_def resolve_def transaction_def catch_null_def keyStore_deleteItem_def
  findProjectByFilter_q_def findProjectGhostUser_q_def deleteById_project_def deleteById_user_def

lemma demo_delete_resolves:
  "\<not> isl (fst (deleteProject deleter_env delete_dto acme_world))"
  by (simp add: delete_defs deleter_env_def demo_env_def delete_dto_def acme_world_def
      acme_tables_def demo_tables_def)

lemma demo_delete_rejected:
  "isl (fst (deleteProject demo_env delete_dto acme_world))"
  by (simp add: delete_defs demo_env_def delete_dto_def acme_world_def
      acme_tables_def demo_tables_def)
lemma rejected_collapse:
  assumes "isl (fst f)"
  shows "f = (Inl (projl (fst f)), snd f)"
  using assms by (cases f; cases "fst f"; simp)

lemma resolved_collapse':
  assumes "\<not> isl (fst f)"
  shows "f = (Inr (projr (fst f)), snd f)"
  using assms by (cases f; cases "fst f"; simp)

text \<open>
  Claim C8, as amended. The cache key deleted is
  \<^verbatim>\<open>`infisical-cloud-plan-${actorOrgId}`\<close>. It is deleted exactly once by a successful
  \<^verbatim>\<open>createProject\<close> and exactly once by a successful \<^verbatim>\<open>deleteProject\<close> (the log of
  deleted keys grows by that one key), and a rejected call of either deletes no key.
\<close>

theorem plan_cache_invalidation:
  "(createProject E dto w = (Inr r, w') \<longrightarrow>
      deleted_keys w' = deleted_keys w @ [''infisical-cloud-plan-'' @ template (actorOrgId dto)])
   \<and> (createProject E dto w = (Inl e, w') \<longrightarrow> deleted_keys w' = deleted_keys w)
   \<and> (deleteProject E ddto w = (Inr d, w2) \<longrightarrow>
        deleted_keys w2 = deleted_keys w @ [''infisical-cloud-plan-'' @ template (actorOrgId ddto)])
   \<and> (deleteProject E ddto w = (Inl e2, w2) \<longrightarrow> deleted_keys w2 = deleted_keys w)"
  using createProject_resolved[of E dto w r w'] createProject_Inl[of E dto w e w']
    deleteProject_resolved[of E ddto w d w2] deleteProject_rejected[of E ddto w e2 w2]
  by (auto simp: cache_key_def)

theorem plan_cache_invalidation_witness:
  "\<not> isl (fst (createProject demo_env user_dto demo_world))
   \<and> deleted_keys (snd (createProject demo_env user_dto demo_world)) = [''infisical-cloud-plan-org1'']
   \<and> isl (fst (createProject at_limit_env user_dto demo_world))
   \<and> deleted_keys (snd (createProject at_limit_env user_dto demo_world)) = []
   \<and> \<not> isl (fst (deleteProject deleter_env delete_dto acme_world))
   \<and> deleted_keys (snd (deleteProject deleter_env delete_dto acme_world)) = [''infisical-cloud-plan-org1'']
   \<and> isl (fst (deleteProject demo_env delete_dto acme_world))
   \<and> deleted_keys (snd (deleteProject demo_env delete_dto acme_world)) = []"
proof -
  obtain r w' where c1: "createProject demo_env user_dto demo_world = (Inr r, w')"
    using demo_user_resolves by blast
  from plan_cache_invalidation[where E = demo_env and dto = user_dto and w = demo_world
      and r = r and w' = w'] c1
  have k1: "deleted_keys w' = [''infisical-cloud-plan-org1'']"
    by (simp add: demo_defs template_def)
  have "createProject at_limit_env user_dto demo_world =
        (Inl (BadRequestError plan_limit_message), demo_world)"
    by (simp add: createProject_def at_limit_env_def demo_defs throw_def plan_limit_message_def)
  then have c2: "isl (fst (createProject at_limit_env user_dto demo_world))"
    "deleted_keys (snd (createProject at_limit_env user_dto demo_world)) = []"
    by (simp_all add: demo_world_def)
  from plan_cache_invalidation[where E = deleter_env and ddto = delete_dto and w = acme_world
      and d = "projr (fst (deleteProject deleter_env delete_dto acme_world))"
      and ?w2.0 = "snd (deleteProject deleter_env delete_dto acme_world)"]
    resolved_collapse'[OF demo_delete_resolves]
  have k3: "deleted_keys (snd (deleteProject deleter_env delete_dto acme_world))
            = [''infisical-cloud-plan-org1'']"
    by (simp add: delete_dto_def acme_world_def template_def)
  from plan_cache_invalidation[where E = demo_env and ddto = delete_dto and w = acme_world
      and ?e2.0 = "projl (fst (deleteProject demo_env delete_dto acme_world))"
      and ?w2.0 = "snd (deleteProject demo_env delete_dto acme_world)"]
    rejected_collapse[OF demo_delete_rejected]
  have k4: "deleted_keys (snd (deleteProject demo_env delete_dto acme_world)) = []"
    by (simp add: acme_world_def)
  from c1 k1 c2 k3 k4 demo_delete_resolves demo_delete_rejected show ?thesis by simp
qed

text \<open>
  Claim C8 as stated names the key \<^verbatim>\<open>plan-usage-{orgId}\<close>: after a successful
  \<^verbatim>\<open>createProject\<close> in organization \<open>org1\<close> the one key deleted is
  \<open>infisical-cloud-plan-org1\<close>, and \<open>plan-usage-org1\<close> was deleted zero times.
\<close>

theorem plan_cache_key_counterexample:
  "actorOrgId user_dto = Some ''org1''
   \<and> \<not> isl (fst (createProject demo_env user_dto demo_world))
   \<and> deleted_keys (snd (createProject demo_env user_dto demo_world)) = [''infisical-cloud-plan-org1'']
   \<and> count_list (deleted_keys (snd (createProject demo_env user_dto demo_world))) ''plan-usage-org1'' = 0"
proof -
  obtain r w' where c1: "createProject demo_env user_dto demo_world = (Inr r, w')"
    using demo_user_resolves by blast
  from createProject_resolved[OF c1]
  have "deleted_keys w' = [''infisical-cloud-plan-org1'']"
    by (auto simp: demo_defs cache_key_def template_def)
  moreover have "actorOrgId user_dto = Some ''org1''" by (simp add: demo_defs)
  ultimately show ?thesis using c1 by simp
qed

end
